theory Spec2Isabelle
  imports Complex_Main
begin

section \<open>Configuration and the capture session\<close>

text \<open>
  The fields of \<^verbatim>\<open>ServerConfig\<close> (config.py) that the capture code reads. The values come
  from the environment (\<^verbatim>\<open>DSK_FPS\<close>, \<^verbatim>\<open>DSK_QUALITY\<close>, \<^verbatim>\<open>DSK_MONITOR\<close>, parsed with
  \<^verbatim>\<open>int\<close>), so any integer can stand in them; the dataclass defaults are 15, 60 and 0.
\<close>

record ServerConfig =
  capture_fps :: int
  capture_quality :: int
  capture_monitor :: int

definition default_config :: ServerConfig where
  "default_config = \<lparr>capture_fps = 15, capture_quality = 60, capture_monitor = 0\<rparr>"

text \<open>
  Python's \<^verbatim>\<open>v or d\<close> for an optional integer argument \<^verbatim>\<open>v\<close>: \<^verbatim>\<open>None\<close> and \<^verbatim>\<open>0\<close> are
  falsy and give \<^verbatim>\<open>d\<close>, whatever \<^verbatim>\<open>d\<close> is.
\<close>

definition py_or :: "int option \<Rightarrow> int \<Rightarrow> int" where
  "py_or v d = (case v of None \<Rightarrow> d | Some n \<Rightarrow> (if n = 0 then d else n))"

text \<open>The exception classes that the modelled code raises, catches or lets through.\<close>

datatype py_exception =
    ZeroDivisionError
  | TimeoutExpired
  | FileNotFoundError
  | CalledProcessError
  | PermissionError
  | OSError
  | BrokenPipeError
  | JSONDecodeError
  | ValueError
  | TypeError
  | AttributeError
  | RuntimeError

text \<open>
  The attributes of \<^verbatim>\<open>ScreenCapture\<close> (screen_capture.py) that the frame loop reads and
  writes. Times are Python floats; they are modelled as exact reals, so rounding is idealised
  away. The PipeWire helper session (\<^verbatim>\<open>_pw_node_id\<close>, \<^verbatim>\<open>_pw_session_proc\<close>) has a model of
  its own further down.
\<close>

record ScreenCapture =
  fps :: int
  quality :: int
  monitor :: int
  running :: bool
  frame_times :: "real list"
  adaptive_quality :: int
  adaptive_fps :: int
  backend :: string

text \<open>\<^verbatim>\<open>ScreenCapture.__init__\<close>; the backend is what \<^verbatim>\<open>_detect_backend\<close> returned.\<close>

definition ScreenCapture_init ::
  "ServerConfig \<Rightarrow> string \<Rightarrow> int option \<Rightarrow> int option \<Rightarrow> int option \<Rightarrow> ScreenCapture" where
  "ScreenCapture_init config detected fps_arg quality_arg monitor_arg =
     (let f = py_or fps_arg (capture_fps config);
          q = py_or quality_arg (capture_quality config);
          m = (case monitor_arg of Some m' \<Rightarrow> m' | None \<Rightarrow> capture_monitor config)
      in \<lparr>fps = f, quality = q, monitor = m, running = False, frame_times = [],
          adaptive_quality = q, adaptive_fps = f, backend = detected\<rparr>)"

subsection \<open>Rate adaptation\<close>

text \<open>\<^verbatim>\<open>xs[-30:]\<close>: the last 30 elements.\<close>

definition last30 :: "'a list \<Rightarrow> 'a list" where
  "last30 xs = drop (length xs - 30) xs"

text \<open>
  \<^verbatim>\<open>ScreenCapture._update_adaptive\<close>. The result is the exception raised, if any, and the
  session as the call leaves it: \<^verbatim>\<open>1.0 / self.fps\<close> raises when the configured fps is 0,
  after the sample has been appended.
\<close>

definition window_of :: "real \<Rightarrow> ScreenCapture \<Rightarrow> real list" where
  "window_of frame_time s =
     (let ft = frame_times s @ [frame_time]
      in if length ft > 30 then last30 ft else ft)"

definition avg_time :: "real list \<Rightarrow> real" where
  "avg_time w = sum_list w / real (length w)"

definition target_time :: "int \<Rightarrow> real" where
  "target_time f = 1 / real_of_int f"

definition update_adaptive :: "real \<Rightarrow> ScreenCapture \<Rightarrow> py_exception option \<times> ScreenCapture" where
  "update_adaptive frame_time s =
     (let w = window_of frame_time s;
          s1 = s\<lparr>frame_times := w\<rparr>
      in if length w < 5 then (None, s1)
         else if fps s1 = 0 then (Some ZeroDivisionError, s1)
         else
           (let s2 = (if avg_time w > target_time (fps s1) * 1.5
                      then s1\<lparr>adaptive_fps := max 3 (adaptive_fps s1 - 1)\<rparr>
                      else if avg_time w < target_time (fps s1) * 0.5
                      then s1\<lparr>adaptive_fps := min (fps s1) (adaptive_fps s1 + 1)\<rparr>
                      else s1)
            in (None, s2\<lparr>adaptive_quality := quality s2\<rparr>)))"

subsection \<open>The frame loop\<close>

text \<open>
  What one pass of the \<^verbatim>\<open>while\<close> loop of \<^verbatim>\<open>stream_frames\<close> meets. The acquisition is the
  outcome of the capture and encode step: \<^verbatim>\<open>frame_data\<close> stayed \<^verbatim>\<open>None\<close>, an exception was
  raised inside the \<^verbatim>\<open>try\<close>, or bytes were produced after the given elapsed time.
\<close>

datatype acquisition = FrameAbsent | FrameRaised | FrameData real

text \<open>
  What the consumer does while the generator is suspended at \<^verbatim>\<open>yield\<close>. The control messages
  are those of \<^verbatim>\<open>ws_screen\<close> (main.py); the optional value is the message's field, absent
  when the message does not carry it. \<^verbatim>\<open>StopCapture\<close> is a call of \<^verbatim>\<open>ScreenCapture.stop\<close>,
  \<^verbatim>\<open>CloseStream\<close> the consumer abandoning the generator (\<^verbatim>\<open>GeneratorExit\<close> at the yield).
\<close>

datatype consumer_action =
    NoMessage
  | SetQuality "int option"
  | SetFps "int option"
  | SetMonitor "int option"
  | OtherMessage
  | StopCapture
  | CloseStream

datatype effect = Yielded ScreenCapture | Slept real | HelperStopped

datatype outcome = Finished | Pending | Propagated py_exception

fun apply_control :: "consumer_action \<Rightarrow> ScreenCapture \<Rightarrow> ScreenCapture" where
  "apply_control (SetQuality v) s =
     (let q = (case v of Some q' \<Rightarrow> q' | None \<Rightarrow> quality s)
      in s\<lparr>quality := q, adaptive_quality := q\<rparr>)"
| "apply_control (SetFps v) s =
     (let f = (case v of Some f' \<Rightarrow> f' | None \<Rightarrow> fps s)
      in s\<lparr>fps := f, adaptive_fps := f\<rparr>)"
| "apply_control (SetMonitor v) s =
     s\<lparr>monitor := (case v of Some m \<Rightarrow> m | None \<Rightarrow> monitor s)\<rparr>"
| "apply_control StopCapture s = s\<lparr>running := False\<rparr>"
| "apply_control _ s = s"

definition emit :: "effect \<Rightarrow> effect list \<times> outcome \<times> ScreenCapture \<Rightarrow> effect list \<times> outcome \<times> ScreenCapture" where
  "emit e r = (e # fst r, snd r)"

text \<open>The \<^verbatim>\<open>finally\<close> block of \<^verbatim>\<open>stream_frames\<close>, reached when the loop ends.\<close>

definition finish :: "ScreenCapture \<Rightarrow> effect list \<times> outcome \<times> ScreenCapture" where
  "finish s =
     ((if backend s = ''pipewire'' then [HelperStopped] else []), Finished, s\<lparr>running := False\<rparr>)"

text \<open>
  The loop of \<^verbatim>\<open>stream_frames\<close>, over the list of what its passes meet; the second argument is
  \<^verbatim>\<open>error_count\<close>. The loop has no bound of its own, so a run is followed as far as the list
  goes: \<^verbatim>\<open>Pending\<close> says that the generator is still running when the list ends.
\<close>

fun stream_loop ::
  "ScreenCapture \<Rightarrow> nat \<Rightarrow> (acquisition \<times> consumer_action) list \<Rightarrow> effect list \<times> outcome \<times> ScreenCapture" where
  "stream_loop s error_count [] = (if running s then ([], Pending, s) else finish s)"
| "stream_loop s error_count ((acq, act) # rest) =
     (if \<not> running s then finish s
      else (case acq of
          FrameAbsent \<Rightarrow>
            (if error_count + 1 > 10 then finish s
             else emit (Slept 0.5) (stream_loop s (error_count + 1) rest))
        | FrameRaised \<Rightarrow>
            (if error_count + 1 > 10 then finish s
             else emit (Slept 0.5) (stream_loop s (error_count + 1) rest))
        | FrameData frame_time \<Rightarrow>
            (case update_adaptive frame_time s of
               (Some e, s1) \<Rightarrow> emit (Slept 0.5) (stream_loop s1 1 rest)
             | (None, s1) \<Rightarrow>
                 emit (Yielded s1)
                   (if act = CloseStream then finish s1
                    else (let s2 = apply_control act s1
                          in if adaptive_fps s2 = 0
                             then emit (Slept 0.5) (stream_loop s2 1 rest)
                             else emit (Slept (max 0.001 (1 / real_of_int (adaptive_fps s2) - frame_time)))
                                    (stream_loop s2 0 rest))))))"

text \<open>
  \<^verbatim>\<open>stream_frames\<close>. The second argument is the exception, if any, that the start of the
  PipeWire session raised: the call stands before the \<^verbatim>\<open>try\<close>, so it propagates.
\<close>

definition stream_frames ::
  "ScreenCapture \<Rightarrow> py_exception option \<Rightarrow> (acquisition \<times> consumer_action) list \<Rightarrow> effect list \<times> outcome \<times> ScreenCapture" where
  "stream_frames s start_raised its =
     (let s0 = s\<lparr>running := True, adaptive_quality := quality s, adaptive_fps := fps s\<rparr>
      in case (if backend s0 = ''pipewire'' then start_raised else None) of
           Some e \<Rightarrow> ([], Propagated e, s0)
         | None \<Rightarrow> stream_loop s0 0 its)"

definition yielded :: "effect list \<times> outcome \<times> ScreenCapture \<Rightarrow> ScreenCapture list" where
  "yielded r = concat (map (\<lambda>e. case e of Yielded s \<Rightarrow> [s] | _ \<Rightarrow> []) (fst r))"


fun control_fps_ok :: "consumer_action \<Rightarrow> bool" where
  "control_fps_ok (SetFps (Some f)) = (3 \<le> f)"
| "control_fps_ok _ = True"


definition quality_fixed :: "ScreenCapture \<Rightarrow> bool" where
  "quality_fixed s = (adaptive_quality s = quality s)"

definition fps_in_bounds :: "ScreenCapture \<Rightarrow> bool" where
  "fps_in_bounds s = (3 \<le> adaptive_fps s \<and> adaptive_fps s \<le> fps s)"

subsection \<open>Single captures\<close>

text \<open>
  \<^verbatim>\<open>ScreenCapture.capture_frame\<close>, up to the call of the encoder: the result is the size and
  the JPEG quality the image is saved with. The second argument is what \<^verbatim>\<open>_capture_image\<close>
  returned (width and height, or nothing, which gives the 640 by 480 placeholder).
  \<^verbatim>\<open>int\<close> truncates towards zero.
\<close>

record encode_request =
  enc_width :: int
  enc_height :: int
  enc_quality :: int

definition py_int :: "real \<Rightarrow> int" where
  "py_int x = (if 0 \<le> x then \<lfloor>x\<rfloor> else \<lceil>x\<rceil>)"

definition capture_frame ::
  "ScreenCapture \<Rightarrow> (int \<times> int) option \<Rightarrow> int option \<Rightarrow> int option \<Rightarrow> encode_request" where
  "capture_frame s captured quality_arg max_width =
     (let q = py_or quality_arg (adaptive_quality s);
          img = (case captured of None \<Rightarrow> (640, 480) | Some i \<Rightarrow> i);
          img' = (case max_width of
                    None \<Rightarrow> img
                  | Some mw \<Rightarrow>
                      if mw \<noteq> 0 \<and> fst img > mw
                      then (mw, py_int (real_of_int (snd img) * (real_of_int mw / real_of_int (fst img))))
                      else img)
      in \<lparr>enc_width = fst img', enc_height = snd img', enc_quality = q\<rparr>)"

subsection \<open>Concrete sessions and runs\<close>

definition slow_session :: ScreenCapture where
  "slow_session =
     (ScreenCapture_init default_config ''mss'' (Some 10) (Some 50) None)\<lparr>frame_times := [0.2, 0.2, 0.2, 0.2]\<rparr>"


definition scenario_session :: ScreenCapture where
  "scenario_session = ScreenCapture_init default_config ''mss'' (Some 10) (Some 50) None"

definition scenario_run :: "(acquisition \<times> consumer_action) list" where
  "scenario_run =
     replicate 5 (FrameData 0.2, NoMessage) @
     [(FrameData 0.04, SetQuality (Some 80)), (FrameAbsent, NoMessage), (FrameData 0.04, SetFps (Some 12))]"

definition two_fps_session :: ScreenCapture where
  "two_fps_session = ScreenCapture_init default_config ''mss'' (Some 2) None None"

definition eleven_failures :: "(acquisition \<times> consumer_action) list" where
  "eleven_failures = replicate 6 (FrameAbsent, NoMessage) @ replicate 5 (FrameRaised, NoMessage)"

definition zero_config :: ServerConfig where
  "zero_config = \<lparr>capture_fps = 0, capture_quality = 0, capture_monitor = 0\<rparr>"


section \<open>Backend detection\<close>

text \<open>
  What a call of \<^verbatim>\<open>subprocess.run\<close> comes to: the process ran and exited with a return code, or
  the call raised.
\<close>

datatype run_result = Exited int | Failed py_exception

text \<open>
  The environment of \<^verbatim>\<open>_detect_backend\<close>: the module-level \<^verbatim>\<open>_is_wayland\<close>, the outcome of
  the \<^verbatim>\<open>gdbus introspect\<close> call, and the outcome of \<^verbatim>\<open>which\<close> for each tool name.
\<close>

record probe_environment =
  is_wayland :: bool
  introspect :: run_result
  which :: "string \<Rightarrow> run_result"

text \<open>
  \<^verbatim>\<open>_cmd_exists\<close>: \<^verbatim>\<open>subprocess.run(["which", cmd], check=True)\<close> raises
  \<^verbatim>\<open>CalledProcessError\<close> on a non-zero return code; that and \<^verbatim>\<open>FileNotFoundError\<close> are
  caught, anything else propagates.
\<close>

definition cmd_exists :: "run_result \<Rightarrow> py_exception + bool" where
  "cmd_exists r =
     (case r of
        Exited rc \<Rightarrow> Inr (rc = 0)
      | Failed e \<Rightarrow> (if e = CalledProcessError \<or> e = FileNotFoundError then Inr False else Inl e))"

text \<open>The \<^verbatim>\<open>for tool in [...]\<close> loop of \<^verbatim>\<open>_detect_backend\<close> and its fall-through.\<close>

fun first_tool :: "(string \<Rightarrow> run_result) \<Rightarrow> string list \<Rightarrow> py_exception + string" where
  "first_tool w [] = Inr ''mss-fallback''"
| "first_tool w (tool # tools) =
     (case cmd_exists (w tool) of
        Inl e \<Rightarrow> Inl e
      | Inr found \<Rightarrow> (if found then Inr tool else first_tool w tools))"

definition cli_tools :: "string list" where
  "cli_tools = [''grim'', ''gnome-screenshot'', ''spectacle'']"

definition detect_backend :: "probe_environment \<Rightarrow> py_exception + string" where
  "detect_backend env =
     (if is_wayland env then
        (case introspect env of
           Exited rc \<Rightarrow> (if rc = 0 then Inr ''pipewire'' else first_tool (which env) cli_tools)
         | Failed e \<Rightarrow>
             (if e = TimeoutExpired \<or> e = FileNotFoundError then first_tool (which env) cli_tools
              else Inl e))
      else Inr ''mss'')"

text \<open>
  The four backend kinds of the data model, as \<^verbatim>\<open>_capture_image\<close> dispatches on the
  backend string.
\<close>

datatype backend_kind = CompositorStream | DirectFramebuffer | CliTool | Fallback

definition backend_kind :: "string \<Rightarrow> backend_kind option" where
  "backend_kind b =
     (if b = ''pipewire'' then Some CompositorStream
      else if b = ''mss'' then Some DirectFramebuffer
      else if b \<in> set cli_tools then Some CliTool
      else if b = ''mss-fallback'' then Some Fallback
      else None)"

text \<open>
  The claim's words: the first tool, in the fixed order, whose probe succeeds, otherwise the
  fallback.
\<close>

definition first_available :: "(string \<Rightarrow> run_result) \<Rightarrow> string" where
  "first_available w =
     (case filter (\<lambda>t. w t = Exited 0) cli_tools of [] \<Rightarrow> ''mss-fallback'' | t # _ \<Rightarrow> t)"

definition introspect_caught :: "run_result \<Rightarrow> bool" where
  "introspect_caught r =
     (case r of Exited rc \<Rightarrow> True | Failed e \<Rightarrow> e = TimeoutExpired \<or> e = FileNotFoundError)"

definition which_caught :: "run_result \<Rightarrow> bool" where
  "which_caught r =
     (case r of Exited rc \<Rightarrow> True | Failed e \<Rightarrow> e = CalledProcessError \<or> e = FileNotFoundError)"

definition gnome_environment :: probe_environment where
  "gnome_environment =
     \<lparr>is_wayland = True, introspect = Failed TimeoutExpired,
      which = (\<lambda>t. if t = ''gnome-screenshot'' then Exited 0
                    else if t = ''grim'' then Exited 1 else Failed FileNotFoundError)\<rparr>"

definition denied_environment :: probe_environment where
  "denied_environment =
     \<lparr>is_wayland = True, introspect = Failed PermissionError, which = (\<lambda>t. Exited 0)\<rparr>"


section \<open>Helper processes\<close>

text \<open>
  A helper process as its parent observes it. Each element of \<^verbatim>\<open>stdout\<close> is what one
  \<^verbatim>\<open>select\<close> on its stdout, followed by \<^verbatim>\<open>readline\<close> when the stream is readable, comes to:
  the timeout passes, a whole line arrives, the stream is at its end (\<^verbatim>\<open>readline\<close> gives the
  empty string), or the call raises. The helper writes whole lines. The flags say what the
  process-level calls find: \<^verbatim>\<open>poll()\<close> reports an exit, writes to stdin succeed,
  \<^verbatim>\<open>wait(timeout)\<close> returns in time after a stop request, and after \<^verbatim>\<open>terminate()\<close>.
\<close>

datatype 'l poll = TimedOut | Readable 'l | EndOfFile | PollFailed py_exception

record 'l helper =
  stdout :: "'l poll list"
  exited :: bool
  stdin_open :: bool
  exits_in_time :: bool
  dies_on_terminate :: bool

definition next_poll :: "'l helper \<Rightarrow> 'l poll \<times> 'l helper" where
  "next_poll h =
     (case stdout h of
        [] \<Rightarrow> ((if exited h then EndOfFile else TimedOut), h)
      | p # ps \<Rightarrow> (p, h\<lparr>stdout := ps\<rparr>))"

text \<open>The flags of a helper, which reading from it leaves as they are.\<close>

definition flags :: "'l helper \<Rightarrow> bool \<times> bool \<times> bool \<times> bool" where
  "flags h = (exited h, stdin_open h, exits_in_time h, dies_on_terminate h)"

datatype io_event = Popen | SelectTimeout real | Wrote string | Terminate | Kill

text \<open>The time spent in selects that ran into their timeout.\<close>

fun select_time :: "io_event list \<Rightarrow> real" where
  "select_time [] = 0"
| "select_time (SelectTimeout t # es) = t + select_time es"
| "select_time (e # es) = select_time es"

fun popens :: "io_event list \<Rightarrow> nat" where
  "popens [] = 0"
| "popens (Popen # es) = Suc (popens es)"
| "popens (e # es) = popens es"

datatype 'a result = Return 'a | Raise py_exception

section \<open>The input helper bridge\<close>

text \<open>
  JSON values as the commands and replies carry them, and dictionaries as association lists.
  A line of the input helper, stripped, is blank, is not a JSON object, or is one.
\<close>

datatype json =
    JNull
  | JBool bool
  | JNum real
  | JStr string
  | JArray "json list"
  | JObject "(string \<times> json) list"

type_synonym dict = "(string \<times> json) list"

datatype json_line = Blank | Malformed | Json dict

text \<open>\<^verbatim>\<open>d.get(k, default)\<close>.\<close>

definition get_or :: "dict \<Rightarrow> string \<Rightarrow> json \<Rightarrow> json" where
  "get_or d k dflt = (case map_of d k of None \<Rightarrow> dflt | Some v \<Rightarrow> v)"

text \<open>
  The text of \<^verbatim>\<open>str(e)\<close> is not modelled beyond the class of the exception.
\<close>

fun str_of :: "py_exception \<Rightarrow> string" where
  "str_of ZeroDivisionError = ''ZeroDivisionError''"
| "str_of TimeoutExpired = ''TimeoutExpired''"
| "str_of FileNotFoundError = ''FileNotFoundError''"
| "str_of CalledProcessError = ''CalledProcessError''"
| "str_of PermissionError = ''PermissionError''"
| "str_of OSError = ''OSError''"
| "str_of BrokenPipeError = ''BrokenPipeError''"
| "str_of JSONDecodeError = ''JSONDecodeError''"
| "str_of ValueError = ''ValueError''"
| "str_of TypeError = ''TypeError''"
| "str_of AttributeError = ''AttributeError''"
| "str_of RuntimeError = ''RuntimeError''"

definition ok_envelope :: dict where
  "ok_envelope = [(''status'', JStr ''ok'')]"

definition error_envelope :: "string \<Rightarrow> dict" where
  "error_envelope msg = [(''status'', JStr ''error''), (''message'', JStr msg)]"

definition not_available :: dict where
  "not_available = error_envelope ''Input backend not available''"

definition stop_command :: dict where
  "stop_command = [(''type'', JStr ''stop'')]"

text \<open>The attributes of \<^verbatim>\<open>WaylandInputBackend\<close> (input_handler.py).\<close>

record WaylandInputBackend =
  process :: "json_line helper option"
  ready :: bool

text \<open>
  What \<^verbatim>\<open>subprocess.Popen\<close> comes to: it raises, or it returns a new helper process.
\<close>

datatype 'l spawn = SpawnFails py_exception | Spawns "'l helper"

text \<open>
  The backend together with its environment: what the coming \<^verbatim>\<open>Popen\<close> calls will give, and
  the record of the calls made so far.
\<close>

record world =
  wl :: WaylandInputBackend
  spawns :: "json_line spawn list"
  events :: "io_event list"

datatype wait_result = BecameReady | GaveUp | LoopRaised py_exception

text \<open>
  The \<^verbatim>\<open>for _ in range(20)\<close> loop of \<^verbatim>\<open>WaylandInputBackend.start\<close>: the first argument is
  the number of passes left.
\<close>

fun wait_for_ready ::
  "nat \<Rightarrow> json_line helper \<Rightarrow> io_event list \<Rightarrow> wait_result \<times> json_line helper \<times> io_event list" where
  "wait_for_ready 0 h ev = (GaveUp, h, ev)"
| "wait_for_ready (Suc n) h ev =
     (case next_poll h of
        (TimedOut, h') \<Rightarrow> wait_for_ready n h' (ev @ [SelectTimeout 0.5])
      | (EndOfFile, h') \<Rightarrow> wait_for_ready n h' ev
      | (PollFailed e, h') \<Rightarrow> (LoopRaised e, h', ev)
      | (Readable Blank, h') \<Rightarrow> wait_for_ready n h' ev
      | (Readable Malformed, h') \<Rightarrow> (LoopRaised JSONDecodeError, h', ev)
      | (Readable (Json d), h') \<Rightarrow>
          (if map_of d ''status'' = Some (JStr ''ready'') then (BecameReady, h', ev)
           else if map_of d ''status'' = Some (JStr ''error'') then (GaveUp, h', ev)
           else wait_for_ready n h' ev))"

definition already_running :: "world \<Rightarrow> bool" where
  "already_running w = (case process (wl w) of None \<Rightarrow> False | Some h \<Rightarrow> \<not> exited h)"

definition dead :: "world \<Rightarrow> bool" where
  "dead w = (\<not> ready (wl w) \<or> (case process (wl w) of None \<Rightarrow> True | Some h \<Rightarrow> exited h))"

definition released :: "world \<Rightarrow> world" where
  "released w = w\<lparr>wl := \<lparr>process = None, ready = False\<rparr>\<rparr>"

definition set_ready :: "bool \<Rightarrow> world \<Rightarrow> world" where
  "set_ready b w = w\<lparr>wl := (wl w)\<lparr>ready := b\<rparr>\<rparr>"

text \<open>
  The \<^verbatim>\<open>except\<close> branch of \<^verbatim>\<open>WaylandInputBackend.stop\<close> and the two assignments after it.
  With no process handle left, \<^verbatim>\<open>terminate()\<close> raises inside the inner \<^verbatim>\<open>try\<close> and
  \<^verbatim>\<open>kill()\<close> raises outside of any.
\<close>

definition force_stop :: "world \<Rightarrow> unit result \<times> world" where
  "force_stop w =
     (case process (wl w) of
        None \<Rightarrow> (Raise AttributeError, w)
      | Some h \<Rightarrow>
          (Return (),
           released (w\<lparr>events := events w @ Terminate #
                        (if exited h \<or> dies_on_terminate h then [] else [Kill])\<rparr>)))"

text \<open>
  The \<^verbatim>\<open>try\<close> block of \<^verbatim>\<open>WaylandInputBackend._send\<close>: write the command, wait up to 2
  seconds for a reply line.
\<close>

definition transmit :: "dict \<Rightarrow> world \<Rightarrow> dict result \<times> world" where
  "transmit cmd w =
     (case process (wl w) of
        None \<Rightarrow> (Return (error_envelope (str_of AttributeError)), set_ready False w)
      | Some h \<Rightarrow>
          if \<not> stdin_open h
          then (Return (error_envelope (str_of BrokenPipeError)), set_ready False w)
          else
            (case next_poll h of (p, h') \<Rightarrow>
               (let w1 = w\<lparr>wl := (wl w)\<lparr>process := Some h'\<rparr>,
                           events := events w @ [Wrote (case get_or cmd ''type'' JNull of JStr t \<Rightarrow> t | _ \<Rightarrow> [])]\<rparr>
                in case p of
                     TimedOut \<Rightarrow> (Return ok_envelope, w1\<lparr>events := events w1 @ [SelectTimeout 2]\<rparr>)
                   | EndOfFile \<Rightarrow> (Return ok_envelope, w1)
                   | PollFailed e \<Rightarrow> (Return (error_envelope (str_of e)), set_ready False w1)
                   | Readable Blank \<Rightarrow> (Return ok_envelope, w1)
                   | Readable Malformed \<Rightarrow>
                       (Return (error_envelope (str_of JSONDecodeError)), set_ready False w1)
                   | Readable (Json d) \<Rightarrow> (Return d, w1))))"

text \<open>
  \<^verbatim>\<open>start\<close>, \<^verbatim>\<open>stop\<close> and \<^verbatim>\<open>_send\<close> of \<^verbatim>\<open>WaylandInputBackend\<close> call one another:
  \<^verbatim>\<open>start\<close> calls \<^verbatim>\<open>stop\<close> when the helper does not become ready, \<^verbatim>\<open>stop\<close> sends the stop
  command through \<^verbatim>\<open>_send\<close>, and \<^verbatim>\<open>_send\<close> calls \<^verbatim>\<open>start\<close> when the backend is not ready.
  The first argument bounds the depth of these calls; \<^verbatim>\<open>None\<close> says that the bound, or the
  end of the list of spawns, was reached.
\<close>

fun start :: "nat \<Rightarrow> world \<Rightarrow> (unit result \<times> world) option"
  and stop :: "nat \<Rightarrow> world \<Rightarrow> (unit result \<times> world) option"
  and send :: "nat \<Rightarrow> dict \<Rightarrow> world \<Rightarrow> (dict result \<times> world) option"
where
  "start 0 w = None"
| "start (Suc n) w =
     (if already_running w then Some (Return (), w)
      else
        (case spawns w of
           [] \<Rightarrow> None
         | SpawnFails e # sp \<Rightarrow> Some (Raise e, w\<lparr>spawns := sp\<rparr>)
         | Spawns h # sp \<Rightarrow>
             (case wait_for_ready 20 h (events w @ [Popen]) of (r, h', ev) \<Rightarrow>
                (let w1 = w\<lparr>wl := (wl w)\<lparr>process := Some h'\<rparr>, spawns := sp, events := ev\<rparr>
                 in case r of
                      BecameReady \<Rightarrow> Some (Return (), set_ready True w1)
                    | GaveUp \<Rightarrow>
                        (if ready (wl w1) then Some (Return (), w1)
                         else
                           (case stop n w1 of
                              None \<Rightarrow> None
                            | Some (Raise e, w2) \<Rightarrow> stop n w2
                            | Some (Return u, w2) \<Rightarrow> Some (Return (), w2)))
                    | LoopRaised e \<Rightarrow> stop n w1))))"
| "stop 0 w = None"
| "stop (Suc n) w =
     (case process (wl w) of
        None \<Rightarrow> Some (Return (), w)
      | Some h \<Rightarrow>
          (case send n stop_command w of
             None \<Rightarrow> None
           | Some (Raise e, w1) \<Rightarrow> Some (force_stop w1)
           | Some (Return d, w1) \<Rightarrow>
               (case process (wl w1) of
                  None \<Rightarrow> Some (force_stop w1)
                | Some h1 \<Rightarrow>
                    (if exited h1 \<or> exits_in_time h1 then Some (Return (), released w1)
                     else Some (force_stop w1)))))"
| "send 0 cmd w = None"
| "send (Suc n) cmd w =
     (if dead w then
        (case start n (set_ready False w) of
           None \<Rightarrow> None
         | Some (Raise e, w1) \<Rightarrow> Some (Raise e, w1)
         | Some (Return u, w1) \<Rightarrow>
             (if \<not> ready (wl w1) then Some (Return not_available, w1)
              else Some (transmit cmd w1)))
      else Some (transmit cmd w))"

section \<open>The input command router\<close>

text \<open>
  What a call of \<^verbatim>\<open>process_command\<close> meets outside the handler: the bound on the depth of
  the bridge's calls, the exception (if any) that the PyAutoGUI calls of the command raise on
  the X11 backend, what the clipboard library does, and Python's \<^verbatim>\<open>str\<close> of a JSON value
  that is not a string.
\<close>

datatype clipboard = ClipboardFails py_exception | ClipboardHolds string

record environment =
  call_depth :: nat
  x11_raises :: "py_exception option"
  clipboard :: clipboard
  fmt :: "json \<Rightarrow> string"

text \<open>
  The attributes of \<^verbatim>\<open>InputHandler\<close>; \<^verbatim>\<open>wayland\<close> says which class \<^verbatim>\<open>_backend\<close> is, and
  \<^verbatim>\<open>bridge\<close> is the Wayland backend with its environment.
\<close>

record InputHandler =
  sensitivity :: real
  drag_active :: bool
  wayland :: bool
  bridge :: world

fun truthy :: "json \<Rightarrow> bool" where
  "truthy JNull = False"
| "truthy (JBool b) = b"
| "truthy (JNum v) = (v \<noteq> 0)"
| "truthy (JStr s) = (s \<noteq> [])"
| "truthy (JArray xs) = (xs \<noteq> [])"
| "truthy (JObject kv) = (kv \<noteq> [])"

text \<open>The operand of an arithmetic operation or comparison with a float: anything but a
  number or a boolean raises \<^verbatim>\<open>TypeError\<close>.\<close>

fun as_number :: "json \<Rightarrow> real option" where
  "as_number (JNum v) = Some v"
| "as_number (JBool b) = Some (if b then 1 else 0)"
| "as_number _ = None"

definition render :: "environment \<Rightarrow> json \<Rightarrow> string" where
  "render env v = (case v of JStr s \<Rightarrow> s | _ \<Rightarrow> fmt env v)"

text \<open>\<^verbatim>\<open>d.get(k)\<close>.\<close>

definition get_opt :: "dict \<Rightarrow> string \<Rightarrow> json" where
  "get_opt d k = get_or d k JNull"

text \<open>The commands that the methods of \<^verbatim>\<open>WaylandInputBackend\<close> send.\<close>

definition wl_mouse_move :: "json \<Rightarrow> json \<Rightarrow> json \<Rightarrow> dict list" where
  "wl_mouse_move x y relative =
     [[(''type'', JStr ''mouse_move''), (''x'', x), (''y'', y), (''relative'', relative)]]"

definition wl_mouse_click :: "json \<Rightarrow> json \<Rightarrow> json \<Rightarrow> json \<Rightarrow> dict list" where
  "wl_mouse_click button count x y =
     (if x \<noteq> JNull \<and> y \<noteq> JNull then wl_mouse_move x y (JBool False) else []) @
     [[(''type'', JStr ''mouse_click''), (''button'', button), (''count'', count)]]"

definition wl_key_press :: "json \<Rightarrow> json \<Rightarrow> dict list" where
  "wl_key_press key modifiers =
     [[(''type'', JStr ''key_press''), (''key'', key),
       (''modifiers'', (if truthy modifiers then modifiers else JArray []))]]"

fun send_all :: "nat \<Rightarrow> dict list \<Rightarrow> world \<Rightarrow> (unit result \<times> world) option" where
  "send_all n [] w = Some (Return (), w)"
| "send_all n (c # cs) w =
     (case send n c w of
        None \<Rightarrow> None
      | Some (Raise e, w1) \<Rightarrow> Some (Raise e, w1)
      | Some (Return d, w1) \<Rightarrow> send_all n cs w1)"

text \<open>
  A call of a backend method: on the Wayland backend the given commands are sent in order
  and the replies dropped; on the X11 backend the PyAutoGUI calls are made.
\<close>

definition backend_call :: "environment \<Rightarrow> dict list \<Rightarrow> InputHandler \<Rightarrow> (unit result \<times> InputHandler) option" where
  "backend_call env cmds h =
     (if wayland h then
        (case send_all (call_depth env) cmds (bridge h) of
           None \<Rightarrow> None
         | Some (r, w) \<Rightarrow> Some (r, h\<lparr>bridge := w\<rparr>))
      else Some ((case x11_raises env of None \<Rightarrow> Return () | Some e \<Rightarrow> Raise e), h))"

text \<open>\<^verbatim>\<open>InputHandler.ensure_started\<close>.\<close>

definition ensure_started :: "environment \<Rightarrow> InputHandler \<Rightarrow> (unit result \<times> InputHandler) option" where
  "ensure_started env h =
     (if wayland h \<and> \<not> ready (wl (bridge h)) then
        (case start (call_depth env) (bridge h) of
           None \<Rightarrow> None
         | Some (r, w) \<Rightarrow> Some (r, h\<lparr>bridge := w\<rparr>))
      else Some (Return (), h))"

text \<open>\<^verbatim>\<open>InputHandler._handle_clipboard\<close>.\<close>

definition handle_clipboard :: "environment \<Rightarrow> dict \<Rightarrow> dict" where
  "handle_clipboard env command =
     (case clipboard env of
        ClipboardFails e \<Rightarrow> error_envelope (str_of e)
      | ClipboardHolds content \<Rightarrow>
          (if get_or command ''action'' (JStr ''get'') = JStr ''set''
           then [(''status'', JStr ''ok''), (''action'', JStr ''set'')]
           else [(''status'', JStr ''ok''), (''action'', JStr ''get''), (''content'', JStr content)]))"

text \<open>
  What follows a backend call inside the \<^verbatim>\<open>try\<close>: the assignment to \<^verbatim>\<open>_drag_active\<close>, if
  the branch has one, and \<^verbatim>\<open>return {"status": "ok"}\<close>.
\<close>

definition then_ok ::
  "(InputHandler \<Rightarrow> InputHandler) \<Rightarrow> (unit result \<times> InputHandler) option \<Rightarrow> (dict result \<times> InputHandler) option" where
  "then_ok after r =
     (case r of
        None \<Rightarrow> None
      | Some (Raise e, h) \<Rightarrow> Some (Raise e, h)
      | Some (Return u, h) \<Rightarrow> Some (Return ok_envelope, after h))"

text \<open>The body of the \<^verbatim>\<open>try\<close> of \<^verbatim>\<open>process_command\<close>.\<close>

definition dispatch :: "environment \<Rightarrow> json \<Rightarrow> dict \<Rightarrow> InputHandler \<Rightarrow> (dict result \<times> InputHandler) option" where
  "dispatch env cmd_type command h =
     (if cmd_type = JStr ''mouse_move'' then
        (let x = get_or command ''x'' (JNum 0);
             y = get_or command ''y'' (JNum 0);
             relative = get_or command ''relative'' (JBool True)
         in if truthy relative then
              (case (as_number x, as_number y) of
                 (Some xv, Some yv) \<Rightarrow>
                   then_ok id
                     (backend_call env
                        (wl_mouse_move (JNum (real_of_int (py_int (xv * sensitivity h))))
                                       (JNum (real_of_int (py_int (yv * sensitivity h)))) relative) h)
               | _ \<Rightarrow> Some (Raise TypeError, h))
            else then_ok id (backend_call env (wl_mouse_move x y relative) h))
      else if cmd_type = JStr ''mouse_click'' then
        then_ok id
          (backend_call env
             (wl_mouse_click (get_or command ''button'' (JStr ''left'')) (get_or command ''count'' (JNum 1))
                (get_opt command ''x'') (get_opt command ''y'')) h)
      else if cmd_type = JStr ''mouse_scroll'' then
        then_ok id
          (backend_call env
             [[(''type'', JStr ''mouse_scroll''), (''dx'', get_or command ''dx'' (JNum 0)),
               (''dy'', get_or command ''dy'' (JNum 0))]] h)
      else if cmd_type = JStr ''mouse_down'' then
        then_ok (\<lambda>h. h\<lparr>drag_active := True\<rparr>)
          (backend_call env
             [[(''type'', JStr ''mouse_down''), (''button'', get_or command ''button'' (JStr ''left''))]] h)
      else if cmd_type = JStr ''mouse_up'' then
        then_ok (\<lambda>h. h\<lparr>drag_active := False\<rparr>)
          (backend_call env
             [[(''type'', JStr ''mouse_up''), (''button'', get_or command ''button'' (JStr ''left''))]] h)
      else if cmd_type = JStr ''key_press'' then
        then_ok id
          (backend_call env
             (wl_key_press (get_or command ''key'' (JStr [])) (get_opt command ''modifiers'')) h)
      else if cmd_type = JStr ''key_combo'' then
        then_ok id
          (backend_call env
             [[(''type'', JStr ''key_combo''), (''keys'', get_or command ''keys'' (JArray []))]] h)
      else if cmd_type = JStr ''type_text'' then
        then_ok id
          (backend_call env
             [[(''type'', JStr ''type_text''), (''text'', get_or command ''text'' (JStr []))]] h)
      else if cmd_type = JStr ''set_sensitivity'' then
        (case as_number (get_or command ''value'' (JNum 1)) of
           None \<Rightarrow> Some (Raise TypeError, h)
         | Some v \<Rightarrow> Some (Return ok_envelope, h\<lparr>sensitivity := max 0.1 (min 5.0 v)\<rparr>))
      else if cmd_type = JStr ''clipboard_sync'' then
        Some (Return (handle_clipboard env command), h)
      else Some (Return (error_envelope (''Unknown command: '' @ render env cmd_type)), h))"

text \<open>
  \<^verbatim>\<open>InputHandler.process_command\<close>: \<^verbatim>\<open>ensure_started\<close> stands before the \<^verbatim>\<open>try\<close>, so what
  it raises propagates; what the body raises becomes the error envelope.
\<close>

definition process_command :: "environment \<Rightarrow> dict \<Rightarrow> InputHandler \<Rightarrow> (dict result \<times> InputHandler) option" where
  "process_command env command h =
     (let cmd_type = get_or command ''type'' (JStr [])
      in case ensure_started env h of
           None \<Rightarrow> None
         | Some (Raise e, h1) \<Rightarrow> Some (Raise e, h1)
         | Some (Return u, h1) \<Rightarrow>
             (case dispatch env cmd_type command h1 of
                None \<Rightarrow> None
              | Some (Raise e, h2) \<Rightarrow> Some (Return (error_envelope (str_of e)), h2)
              | Some (Return d, h2) \<Rightarrow> Some (Return d, h2)))"

section \<open>The capture helper session\<close>

text \<open>
  The PipeWire session state of \<^verbatim>\<open>ScreenCapture\<close>, with the record of the calls made. The
  helper's lines are strings, already stripped.
\<close>

record pw_session =
  pw_node_id :: "int option"
  pw_session_proc :: "string helper option"
  pw_events :: "io_event list"

definition starts_with :: "string \<Rightarrow> string \<Rightarrow> bool" where
  "starts_with prefix s = (take (length prefix) s = prefix)"

text \<open>\<^verbatim>\<open>line.split(":")[1]\<close> for a line that contains a colon.\<close>

definition second_field :: "string \<Rightarrow> string" where
  "second_field line =
     takeWhile (\<lambda>c. c \<noteq> CHR '':'') (drop 1 (dropWhile (\<lambda>c. c \<noteq> CHR '':'') line))"

text \<open>\<^verbatim>\<open>ScreenCapture._stop_pipewire_session\<close>.\<close>

definition stop_pipewire_session :: "pw_session \<Rightarrow> pw_session" where
  "stop_pipewire_session s =
     (case pw_session_proc s of
        None \<Rightarrow> s
      | Some h \<Rightarrow>
          s\<lparr>pw_session_proc := None, pw_node_id := None,
            pw_events := pw_events s @
              (if stdin_open h then [Wrote ''stop''] else []) @
              (if stdin_open h \<and> (exited h \<or> exits_in_time h) then []
               else Terminate # (if exited h \<or> dies_on_terminate h then [] else [Kill]))\<rparr>)"

datatype node_result = GotNode int | ReportedError | NoNode | NodeLoopRaised py_exception

text \<open>
  The \<^verbatim>\<open>for _ in range(10)\<close> loop of \<^verbatim>\<open>_start_pipewire_session\<close>. Python's \<^verbatim>\<open>int\<close> of a
  string is the first argument: it gives nothing where \<^verbatim>\<open>int\<close> raises \<^verbatim>\<open>ValueError\<close>.
\<close>

fun wait_for_node ::
  "(string \<Rightarrow> int option) \<Rightarrow> nat \<Rightarrow> string helper \<Rightarrow> io_event list \<Rightarrow> node_result \<times> string helper \<times> io_event list" where
  "wait_for_node parse 0 h ev = (NoNode, h, ev)"
| "wait_for_node parse (Suc n) h ev =
     (case next_poll h of
        (TimedOut, h') \<Rightarrow> wait_for_node parse n h' (ev @ [SelectTimeout 0.5])
      | (EndOfFile, h') \<Rightarrow> wait_for_node parse n h' ev
      | (PollFailed e, h') \<Rightarrow> (NodeLoopRaised e, h', ev)
      | (Readable line, h') \<Rightarrow>
          (if starts_with ''NODE:'' line then
             (case parse (second_field line) of
                None \<Rightarrow> (NodeLoopRaised ValueError, h', ev)
              | Some i \<Rightarrow> (GotNode i, h', ev))
           else if starts_with ''ERROR:'' line then (ReportedError, h', ev)
           else wait_for_node parse n h' ev))"

text \<open>
  \<^verbatim>\<open>ScreenCapture._start_pipewire_session\<close>; the second argument is what \<^verbatim>\<open>Popen\<close> comes to,
  which stands before the \<^verbatim>\<open>try\<close>.
\<close>

definition start_pipewire_session ::
  "(string \<Rightarrow> int option) \<Rightarrow> string spawn \<Rightarrow> pw_session \<Rightarrow> unit result \<times> pw_session" where
  "start_pipewire_session parse sp s =
     (case pw_session_proc s of
        Some running_proc \<Rightarrow> (Return (), s)
      | None \<Rightarrow>
          (case sp of
             SpawnFails e \<Rightarrow> (Raise e, s)
           | Spawns h \<Rightarrow>
               (case wait_for_node parse 10 h (pw_events s @ [Popen]) of (r, h', ev) \<Rightarrow>
                  (let s1 = s\<lparr>pw_session_proc := Some h', pw_events := ev\<rparr>
                   in case r of
                        GotNode i \<Rightarrow> (Return (), s1\<lparr>pw_node_id := Some i\<rparr>)
                      | ReportedError \<Rightarrow> (Return (), stop_pipewire_session s1)
                      | NoNode \<Rightarrow>
                          (Return (), (if pw_node_id s1 = None then stop_pipewire_session s1 else s1))
                      | NodeLoopRaised e \<Rightarrow> (Return (), stop_pipewire_session s1)))))"

subsection \<open>Concrete helpers, bridges and handlers\<close>

definition silent_helper :: "'l helper" where
  "silent_helper =
     \<lparr>stdout = [], exited = False, stdin_open = True, exits_in_time = False, dies_on_terminate = True\<rparr>"

definition ready_helper :: "json_line helper" where
  "ready_helper = silent_helper\<lparr>stdout := [TimedOut, Readable (Json [(''status'', JStr ''ready''), (''session'', JStr ''/s1'')])]\<rparr>"

definition crashed_helper :: "json_line helper" where
  "crashed_helper = silent_helper\<lparr>stdout := [Readable (Json [(''status'', JStr ''error'')])], exited := True\<rparr>"

definition node_helper :: "string helper" where
  "node_helper = silent_helper\<lparr>stdout := [TimedOut, Readable ''NODE:42'', Readable ''SESSION:/s1'']\<rparr>"

definition parse_42 :: "string \<Rightarrow> int option" where
  "parse_42 s = (if s = ''42'' then Some 42 else None)"

definition fresh_world :: "json_line spawn list \<Rightarrow> world" where
  "fresh_world sp = \<lparr>wl = \<lparr>process = None, ready = False\<rparr>, spawns = sp, events = []\<rparr>"

definition fresh_pw :: pw_session where
  "fresh_pw = \<lparr>pw_node_id = None, pw_session_proc = None, pw_events = []\<rparr>"

definition x11_handler :: InputHandler where
  "x11_handler = \<lparr>sensitivity = 1, drag_active = False, wayland = False, bridge = fresh_world []\<rparr>"

definition wayland_handler :: "json_line spawn list \<Rightarrow> InputHandler" where
  "wayland_handler sp = \<lparr>sensitivity = 1, drag_active = False, wayland = True, bridge = fresh_world sp\<rparr>"

definition test_environment :: environment where
  "test_environment =
     \<lparr>call_depth = 8, x11_raises = None, clipboard = ClipboardHolds ''copied'', fmt = (\<lambda>v. ''?'')\<rparr>"

text \<open>
  The results that \<^verbatim>\<open>process_command\<close> hands back: the success envelope, the result of the
  clipboard handler, or an error envelope with some message.
\<close>

definition is_result :: "environment \<Rightarrow> dict \<Rightarrow> dict \<Rightarrow> bool" where
  "is_result env command d =
     (d = ok_envelope \<or> d = handle_clipboard env command \<or> (\<exists>msg. d = error_envelope msg))"

definition live_world :: world where
  "live_world = \<lparr>wl = \<lparr>process = Some silent_helper, ready = True\<rparr>, spawns = [], events = []\<rparr>"

section \<open>Properties of rate adaptation\<close>








lemma update_adaptive_quality [simp]: "quality (snd (update_adaptive t s)) = quality s"
  by (simp add: update_adaptive_def Let_def)

lemma update_adaptive_fps [simp]: "fps (snd (update_adaptive t s)) = fps s"
  by (simp add: update_adaptive_def Let_def)

lemma update_adaptive_keeps_quality:
  "quality_fixed s \<Longrightarrow> adaptive_quality (snd (update_adaptive t s)) = adaptive_quality s"
  by (simp add: update_adaptive_def Let_def quality_fixed_def)

lemma update_adaptive_quality_fixed:
  "quality_fixed s \<Longrightarrow> quality_fixed (snd (update_adaptive t s))"
  by (simp add: update_adaptive_def Let_def quality_fixed_def)

lemma apply_control_quality_fixed:
  "quality_fixed s \<Longrightarrow> quality_fixed (apply_control act s)"
  by (cases act) (simp_all add: Let_def quality_fixed_def)

lemma update_adaptive_in_bounds:
  "fps_in_bounds s \<Longrightarrow> fps_in_bounds (snd (update_adaptive t s))"
  by (simp add: update_adaptive_def Let_def fps_in_bounds_def)

lemma apply_control_in_bounds:
  "fps_in_bounds s \<Longrightarrow> control_fps_ok act \<Longrightarrow> fps_in_bounds (apply_control act s)"
  by (cases act rule: control_fps_ok.cases) (simp_all add: Let_def fps_in_bounds_def)




section \<open>Properties of the frame loop\<close>

lemma fst_emit [simp]: "fst (emit e r) = e # fst r"
  by (simp add: emit_def)

lemma snd_emit [simp]: "snd (emit e r) = snd r"
  by (simp add: emit_def)


lemma finish_not_Pending [simp]: "finish s \<noteq> (es, Pending, s')"
  by (simp add: finish_def)

lemma outcome_finish [simp]: "fst (snd (finish s)) = Finished"
  by (simp add: finish_def)

lemma yielded_emit_Yielded [simp]: "yielded (emit (Yielded s) r) = s # yielded r"
  by (simp add: yielded_def emit_def)

lemma yielded_emit_Slept [simp]: "yielded (emit (Slept x) r) = yielded r"
  by (simp add: yielded_def emit_def)

lemma yielded_finish [simp]: "yielded (finish s) = []"
  by (simp add: yielded_def finish_def)

lemma yielded_Pending [simp]: "yielded ([], Pending, s) = []"
  by (simp add: yielded_def)

lemma yielded_Propagated [simp]: "yielded ([], Propagated e, s) = []"
  by (simp add: yielded_def)

lemma yielded_append: "yielded (es @ es', r) = yielded (es, r) @ yielded (es', r)"
  by (simp add: yielded_def)

lemma yielded_replicate_Slept [simp]: "yielded (replicate n (Slept x) @ es, r) = yielded (es, r)"
  by (induction n) (simp_all add: yielded_def)

lemma yielded_fst: "yielded r = yielded (fst r, r')"
  by (simp add: yielded_def)

lemma stream_loop_quality_fixed:
  "quality_fixed s \<Longrightarrow> list_all quality_fixed (yielded (stream_loop s ec its))"
proof (induction its arbitrary: s ec)
  case Nil
  then show ?case by simp
next
  case (Cons it its)
  obtain acq act where it: "it = (acq, act)" by (cases it)
  show ?case
  proof (cases "running s")
    case False
    then show ?thesis by (simp add: it)
  next
    case True
    show ?thesis
    proof (cases acq)
      case FrameAbsent
      with True Cons.IH[OF Cons.prems] show ?thesis by (simp add: it)
    next
      case FrameRaised
      with True Cons.IH[OF Cons.prems] show ?thesis by (simp add: it)
    next
      case (FrameData t)
      obtain exn s1 where ua: "update_adaptive t s = (exn, s1)" by (cases "update_adaptive t s")
      have s1: "s1 = snd (update_adaptive t s)" by (simp add: ua)
      have q1: "quality_fixed s1"
        using update_adaptive_quality_fixed[OF Cons.prems, of t] by (simp add: s1)
      have q2: "quality_fixed (apply_control act s1)"
        by (rule apply_control_quality_fixed[OF q1])
      show ?thesis
      proof (cases exn)
        case None
        with True FrameData ua q1 Cons.IH[OF q2] show ?thesis
          by (simp add: it Let_def)
      next
        case (Some e)
        with True FrameData ua Cons.IH[OF q1] show ?thesis
          by (simp add: it)
      qed
    qed
  qed
qed

lemma stream_loop_fps_bounds:
  "fps_in_bounds s \<Longrightarrow> list_all (\<lambda>it. control_fps_ok (snd it)) its \<Longrightarrow>
   list_all fps_in_bounds (yielded (stream_loop s ec its))"
proof (induction its arbitrary: s ec)
  case Nil
  then show ?case by simp
next
  case (Cons it its)
  obtain acq act where it: "it = (acq, act)" by (cases it)
  from Cons.prems have ok: "control_fps_ok act" and oks: "list_all (\<lambda>it. control_fps_ok (snd it)) its"
    by (simp_all add: it)
  have ih: "\<And>s ec. fps_in_bounds s \<Longrightarrow> list_all fps_in_bounds (yielded (stream_loop s ec its))"
    using Cons.IH oks by blast
  show ?case
  proof (cases "running s")
    case False
    then show ?thesis by (simp add: it)
  next
    case True
    show ?thesis
    proof (cases acq)
      case FrameAbsent
      with True ih[OF Cons.prems(1)] show ?thesis by (simp add: it)
    next
      case FrameRaised
      with True ih[OF Cons.prems(1)] show ?thesis by (simp add: it)
    next
      case (FrameData t)
      obtain exn s1 where ua: "update_adaptive t s = (exn, s1)" by (cases "update_adaptive t s")
      have s1: "s1 = snd (update_adaptive t s)" by (simp add: ua)
      have b1: "fps_in_bounds s1"
        using update_adaptive_in_bounds[OF Cons.prems(1), of t] by (simp add: s1)
      have b2: "fps_in_bounds (apply_control act s1)"
        by (rule apply_control_in_bounds[OF b1 ok])
      show ?thesis
      proof (cases exn)
        case None
        with True FrameData ua b1 ih[OF b2] show ?thesis
          by (simp add: it Let_def)
      next
        case (Some e)
        with True FrameData ua ih[OF b1] show ?thesis
          by (simp add: it)
      qed
    qed
  qed
qed






lemmas run_defs = stream_frames_def yielded_def emit_def finish_def
  scenario_session_def scenario_run_def two_fps_session_def eleven_failures_def

text \<open>
  C1. In every run of \<^verbatim>\<open>stream_frames\<close>, whatever the session it starts from, the
  acquisitions it meets and the control messages it receives in between, every yielded frame
  finds the adaptive quality equal to the configured quality. Rate adaptation itself never
  writes the configured quality, and leaves the adaptive quality as it is whenever the two
  agree.
\<close>

theorem stream_frames_quality_fixed:
  "list_all quality_fixed (yielded (stream_frames s start_raised its))
   \<and> quality (snd (update_adaptive t s)) = quality s
   \<and> (quality_fixed s \<longrightarrow> adaptive_quality (snd (update_adaptive t s)) = adaptive_quality s)"
proof -
  have "quality_fixed (s\<lparr>running := True, adaptive_quality := quality s, adaptive_fps := fps s\<rparr>)"
    by (simp add: quality_fixed_def)
  then have "list_all quality_fixed (yielded (stream_frames s start_raised its))"
    by (simp add: stream_frames_def Let_def stream_loop_quality_fixed split: option.split)
  then show ?thesis
    by (simp add: update_adaptive_keeps_quality)
qed

theorem stream_frames_quality_fixed_witness:
  "quality_fixed slow_session
   \<and> adaptive_quality (snd (update_adaptive 0.2 slow_session)) = 50
   \<and> map adaptive_quality (yielded (stream_frames scenario_session None scenario_run)) = [50, 50, 50, 50, 50, 50, 80]
   \<and> map quality (yielded (stream_frames scenario_session None scenario_run)) = [50, 50, 50, 50, 50, 50, 80]
   \<and> list_all quality_fixed (yielded (stream_frames scenario_session None scenario_run))"
proof -
  have q: "quality_fixed slow_session" by code_simp
  have a: "adaptive_quality slow_session = 50" by code_simp
  have r1: "map adaptive_quality (yielded (stream_frames scenario_session None scenario_run)) = [50, 50, 50, 50, 50, 50, 80]"
    by code_simp
  have r2: "map quality (yielded (stream_frames scenario_session None scenario_run)) = [50, 50, 50, 50, 50, 50, 80]"
    by code_simp
  from stream_frames_quality_fixed[of scenario_session None scenario_run "0.2" ]
  have l: "list_all quality_fixed (yielded (stream_frames scenario_session None scenario_run))" by blast
  from stream_frames_quality_fixed[of slow_session None "[]" "0.2"] q a
  have "adaptive_quality (snd (update_adaptive 0.2 slow_session)) = 50" by simp
  with q r1 r2 l show ?thesis by blast
qed

text \<open>
  C2, as the code has it. When the configured fps is at least 3, and every fps value that a
  \<^verbatim>\<open>set_fps\<close> control message carries is at least 3, every yielded frame finds
  \<open>3 \<le> adaptive_fps \<le> fps\<close>.
\<close>

theorem stream_frames_fps_in_bounds:
  "3 \<le> fps s \<Longrightarrow> list_all (\<lambda>it. control_fps_ok (snd it)) its \<Longrightarrow>
   list_all fps_in_bounds (yielded (stream_frames s start_raised its))"
proof -
  assume f: "3 \<le> fps s" and c: "list_all (\<lambda>it. control_fps_ok (snd it)) its"
  from f have "fps_in_bounds (s\<lparr>running := True, adaptive_quality := quality s, adaptive_fps := fps s\<rparr>)"
    by (simp add: fps_in_bounds_def)
  from stream_loop_fps_bounds[OF this c] show ?thesis
    by (simp add: stream_frames_def Let_def split: option.split)
qed

theorem stream_frames_fps_in_bounds_witness:
  "3 \<le> fps scenario_session
   \<and> list_all (\<lambda>it. control_fps_ok (snd it)) scenario_run
   \<and> map adaptive_fps (yielded (stream_frames scenario_session None scenario_run)) = [10, 10, 10, 10, 9, 8, 7]
   \<and> list_all fps_in_bounds (yielded (stream_frames scenario_session None scenario_run))"
proof -
  have f: "3 \<le> fps scenario_session" by code_simp
  have c: "list_all (\<lambda>it. control_fps_ok (snd it)) scenario_run" by code_simp
  have r: "map adaptive_fps (yielded (stream_frames scenario_session None scenario_run)) = [10, 10, 10, 10, 9, 8, 7]"
    by code_simp
  from f c r stream_frames_fps_in_bounds[OF f c, of None] show ?thesis by blast
qed

text \<open>
  C2 as stated fails: the constructor accepts fps 2, and the first frame is then yielded with
  an adaptive fps of 2, below 3.
\<close>

theorem stream_frames_fps_in_bounds_counterexample:
  "fps two_fps_session = 2
   \<and> map adaptive_fps (yielded (stream_frames two_fps_session None [(FrameData 0.01, NoMessage)])) = [2]
   \<and> \<not> list_all fps_in_bounds (yielded (stream_frames two_fps_session None [(FrameData 0.01, NoMessage)]))"
  by code_simp



section \<open>The value 0 at the public interface\<close>

text \<open>
  C10, as the code has it. An fps or quality argument of 0 gives the constructor the value of
  the configuration, and a quality argument of 0 makes \<^verbatim>\<open>capture_frame\<close> encode at the
  adaptive quality. The value obtained is then non-zero exactly when that fallback value is:
  for every argument, the constructor's fps and quality are non-zero when the configured
  values are, and the encoding quality is non-zero when the adaptive quality is.
\<close>

theorem zero_means_unspecified:
  "fps (ScreenCapture_init config detected (Some 0) quality_arg monitor_arg) = capture_fps config
   \<and> quality (ScreenCapture_init config detected fps_arg (Some 0) monitor_arg) = capture_quality config
   \<and> enc_quality (capture_frame s captured (Some 0) max_width) = adaptive_quality s
   \<and> (capture_fps config \<noteq> 0 \<longrightarrow> fps (ScreenCapture_init config detected fps_arg quality_arg monitor_arg) \<noteq> 0)
   \<and> (capture_quality config \<noteq> 0 \<longrightarrow> quality (ScreenCapture_init config detected fps_arg quality_arg monitor_arg) \<noteq> 0)
   \<and> (adaptive_quality s \<noteq> 0 \<longrightarrow> enc_quality (capture_frame s captured quality_arg max_width) \<noteq> 0)"
  by (simp add: ScreenCapture_init_def capture_frame_def py_or_def Let_def split: option.split)

theorem zero_means_unspecified_witness:
  "capture_fps default_config = 15 \<and> capture_quality default_config = 60
   \<and> fps (ScreenCapture_init default_config ''mss'' (Some 0) (Some 0) None) = 15
   \<and> quality (ScreenCapture_init default_config ''mss'' (Some 0) (Some 0) None) = 60
   \<and> adaptive_quality scenario_session = 50
   \<and> enc_quality (capture_frame scenario_session None (Some 0) None) = 50"
  using zero_means_unspecified[where config = default_config and s = scenario_session
      and fps_arg = "Some 0" and quality_arg = "Some 0" and detected = "''mss''"
      and monitor_arg = None and captured = None and max_width = None]
  by (simp add: default_config_def scenario_session_def ScreenCapture_init_def py_or_def)

text \<open>
  C10 as stated fails when the configuration itself holds 0 (\<^verbatim>\<open>DSK_FPS=0\<close>,
  \<^verbatim>\<open>DSK_QUALITY=0\<close>): the caller then obtains an fps and a quality of 0.
\<close>

theorem zero_means_unspecified_counterexample:
  "fps (ScreenCapture_init zero_config ''mss'' (Some 0) (Some 0) None) = 0
   \<and> quality (ScreenCapture_init zero_config ''mss'' (Some 0) (Some 0) None) = 0
   \<and> enc_quality (capture_frame (ScreenCapture_init zero_config ''mss'' (Some 0) (Some 0) None) None (Some 0) None) = 0"
  by (simp add: zero_config_def ScreenCapture_init_def capture_frame_def py_or_def)

section \<open>Properties of backend detection\<close>

lemma first_tool_caught:
  "list_all (\<lambda>t. which_caught (w t)) tools \<Longrightarrow>
   first_tool w tools =
     Inr (case filter (\<lambda>t. w t = Exited 0) tools of [] \<Rightarrow> ''mss-fallback'' | t # _ \<Rightarrow> t)"
proof (induction tools)
  case Nil
  then show ?case by simp
next
  case (Cons t tools)
  then show ?case
    by (cases "w t") (auto simp: cmd_exists_def which_caught_def)
qed

lemma backend_kind_first_available: "backend_kind (first_available w) \<noteq> None"
  by (simp add: first_available_def backend_kind_def cli_tools_def)

text \<open>
  C5, as the code has it. Outside a compositor session detection returns \<^verbatim>\<open>mss\<close>
  unconditionally. Under a compositor session, when the introspection probe and the three
  tool probes each either complete or raise an exception the code catches
  (\<^verbatim>\<open>TimeoutExpired\<close> or \<^verbatim>\<open>FileNotFoundError\<close> for the introspection,
  \<^verbatim>\<open>CalledProcessError\<close> or \<^verbatim>\<open>FileNotFoundError\<close> for a tool), detection returns a backend
  of one of the four kinds: \<^verbatim>\<open>pipewire\<close> exactly when the introspection exited with code 0,
  otherwise the first tool of grim, gnome-screenshot, spectacle whose probe exited with code
  0, otherwise \<^verbatim>\<open>mss-fallback\<close>. Any other exception of the introspection probe leaves
  detection as that exception. The result is a function of the probe outcomes.
\<close>

theorem detect_backend_selection:
  "(\<not> is_wayland env \<longrightarrow> detect_backend env = Inr ''mss'')
   \<and> (is_wayland env \<and> introspect_caught (introspect env) \<and> list_all (\<lambda>t. which_caught (which env t)) cli_tools \<longrightarrow>
        detect_backend env =
          Inr (if introspect env = Exited 0 then ''pipewire'' else first_available (which env))
        \<and> (\<exists>b k. detect_backend env = Inr b \<and> backend_kind b = Some k
               \<and> (k = CompositorStream \<longleftrightarrow> introspect env = Exited 0)))
   \<and> (is_wayland env \<and> introspect env = Failed e \<and> e \<noteq> TimeoutExpired \<and> e \<noteq> FileNotFoundError \<longrightarrow>
        detect_backend env = Inl e)"
proof -
  have x11: "\<not> is_wayland env \<longrightarrow> detect_backend env = Inr ''mss''"
    by (simp add: detect_backend_def)
  have raised: "is_wayland env \<and> introspect env = Failed e \<and> e \<noteq> TimeoutExpired \<and> e \<noteq> FileNotFoundError \<longrightarrow>
        detect_backend env = Inl e"
    by (simp add: detect_backend_def)
  have wl: "is_wayland env \<and> introspect_caught (introspect env) \<and> list_all (\<lambda>t. which_caught (which env t)) cli_tools \<longrightarrow>
        detect_backend env =
          Inr (if introspect env = Exited 0 then ''pipewire'' else first_available (which env))
        \<and> (\<exists>b k. detect_backend env = Inr b \<and> backend_kind b = Some k
               \<and> (k = CompositorStream \<longleftrightarrow> introspect env = Exited 0))"
  proof (intro impI, elim conjE)
    assume w: "is_wayland env" and i: "introspect_caught (introspect env)"
      and t: "list_all (\<lambda>t. which_caught (which env t)) cli_tools"
    have ft: "first_tool (which env) cli_tools = Inr (first_available (which env))"
      using first_tool_caught[OF t] by (simp add: first_available_def)
    have d: "detect_backend env =
          Inr (if introspect env = Exited 0 then ''pipewire'' else first_available (which env))"
      using w i ft by (cases "introspect env") (auto simp: detect_backend_def introspect_caught_def)
    have k: "backend_kind (first_available (which env)) \<noteq> None"
      "backend_kind (first_available (which env)) \<noteq> Some CompositorStream"
      by (simp_all add: first_available_def backend_kind_def cli_tools_def split: list.split)
    have e: "\<exists>b k. detect_backend env = Inr b \<and> backend_kind b = Some k
               \<and> (k = CompositorStream \<longleftrightarrow> introspect env = Exited 0)"
    proof (cases "introspect env = Exited 0")
      case True
      then show ?thesis by (simp add: d backend_kind_def)
    next
      case False
      with k show ?thesis by (auto simp: d)
    qed
    from d e show "detect_backend env =
          Inr (if introspect env = Exited 0 then ''pipewire'' else first_available (which env))
        \<and> (\<exists>b k. detect_backend env = Inr b \<and> backend_kind b = Some k
               \<and> (k = CompositorStream \<longleftrightarrow> introspect env = Exited 0))" by blast
  qed
  from x11 wl raised show ?thesis by blast
qed

theorem detect_backend_selection_witness:
  "is_wayland gnome_environment \<and> introspect_caught (introspect gnome_environment)
   \<and> list_all (\<lambda>t. which_caught (which gnome_environment t)) cli_tools
   \<and> detect_backend gnome_environment = Inr ''gnome-screenshot''
   \<and> backend_kind ''gnome-screenshot'' = Some CliTool"
proof -
  have w: "is_wayland gnome_environment" by (simp add: gnome_environment_def)
  have i: "introspect_caught (introspect gnome_environment)"
    by (simp add: gnome_environment_def introspect_caught_def)
  have t: "list_all (\<lambda>t. which_caught (which gnome_environment t)) cli_tools"
    by (simp add: gnome_environment_def which_caught_def cli_tools_def)
  have f: "first_available (which gnome_environment) = ''gnome-screenshot''"
    by (simp add: gnome_environment_def first_available_def cli_tools_def)
  have n: "introspect gnome_environment \<noteq> Exited 0" by (simp add: gnome_environment_def)
  have k: "backend_kind ''gnome-screenshot'' = Some CliTool"
    by (simp add: backend_kind_def cli_tools_def)
  from detect_backend_selection[of gnome_environment] w i t n f
  have "detect_backend gnome_environment = Inr ''gnome-screenshot''" by simp
  with w i t k show ?thesis by blast
qed

text \<open>
  C5 as stated fails: under a compositor session, an introspection probe that raises
  \<^verbatim>\<open>PermissionError\<close> is not taken as "not available"; detection raises and returns no
  backend, although every tool is installed.
\<close>

theorem detect_backend_selection_counterexample:
  "is_wayland denied_environment \<and> introspect denied_environment = Failed PermissionError
   \<and> detect_backend denied_environment = Inl PermissionError"
  by (simp add: denied_environment_def detect_backend_def)

section \<open>Properties of the helper bridges\<close>

lemma select_time_append [simp]: "select_time (xs @ ys) = select_time xs + select_time ys"
  by (induction xs rule: select_time.induct) simp_all

lemma select_time_replicate [simp]: "select_time (replicate k (SelectTimeout t)) = real k * t"
  by (induction k) (simp_all add: algebra_simps)

lemma popens_append [simp]: "popens (xs @ ys) = popens xs + popens ys"
  by (induction xs rule: popens.induct) simp_all

lemma popens_replicate [simp]: "popens (replicate k (SelectTimeout t)) = 0"
  by (induction k) simp_all

lemma next_poll_flags [simp]: "flags (snd (next_poll h)) = flags h"
  by (simp add: next_poll_def flags_def split: list.split)

lemma next_poll_silent:
  "stdout h = [] \<Longrightarrow> \<not> exited h \<Longrightarrow> next_poll h = (TimedOut, h)"
  by (simp add: next_poll_def)

lemma wait_for_ready_flags:
  "wait_for_ready n h ev = (r, h', ev') \<Longrightarrow> flags h' = flags h"
proof (induction n arbitrary: h ev)
  case 0
  then show ?case by simp
next
  case (Suc n)
  obtain p h1 where np: "next_poll h = (p, h1)" by (cases "next_poll h")
  have f: "flags h1 = flags h"
    using next_poll_flags[of h] by (simp add: np)
  have rec: "\<And>ev0. wait_for_ready n h1 ev0 = (r, h', ev') \<Longrightarrow> flags h' = flags h"
    using Suc.IH f by simp
  from Suc.prems rec f show ?case
    by (auto simp: np split: poll.splits json_line.splits if_splits)
qed

lemma wait_for_ready_events:
  "wait_for_ready n h ev = (r, h', ev') \<Longrightarrow> \<exists>k\<le>n. ev' = ev @ replicate k (SelectTimeout 0.5)"
proof (induction n arbitrary: h ev)
  case 0
  then show ?case by simp
next
  case (Suc n)
  obtain p h1 where np: "next_poll h = (p, h1)" by (cases "next_poll h")
  have same: "wait_for_ready n h1 ev = (r, h', ev') \<Longrightarrow> ?case"
  proof -
    assume "wait_for_ready n h1 ev = (r, h', ev')"
    from Suc.IH[OF this] obtain k where "k \<le> n" "ev' = ev @ replicate k (SelectTimeout 0.5)" by blast
    then show ?case by (intro exI[of _ k]) simp
  qed
  have timed: "wait_for_ready n h1 (ev @ [SelectTimeout 0.5]) = (r, h', ev') \<Longrightarrow> ?case"
  proof -
    assume "wait_for_ready n h1 (ev @ [SelectTimeout 0.5]) = (r, h', ev')"
    from Suc.IH[OF this] obtain k where k: "k \<le> n" "ev' = (ev @ [SelectTimeout 0.5]) @ replicate k (SelectTimeout 0.5)"
      by blast
    then have "ev' = ev @ replicate (Suc k) (SelectTimeout 0.5)" by simp
    with k(1) show ?case by (intro exI[of _ "Suc k"]) simp
  qed
  have stop: "ev' = ev \<Longrightarrow> ?case" by (intro exI[of _ 0]) simp
  from Suc.prems same timed stop show ?case
    by (auto simp: np split: poll.splits json_line.splits if_splits)
qed

lemma wait_for_ready_silent:
  "stdout h = [] \<Longrightarrow> \<not> exited h \<Longrightarrow>
   wait_for_ready n h ev = (GaveUp, h, ev @ replicate n (SelectTimeout 0.5))"
proof (induction n arbitrary: ev)
  case 0
  then show ?case by simp
next
  case (Suc n)
  from Suc.IH[OF Suc.prems, of "ev @ [SelectTimeout 0.5]"] Suc.prems show ?case
    by (simp add: next_poll_silent replicate_append_same)
qed

lemma wait_for_node_flags:
  "wait_for_node parse n h ev = (r, h', ev') \<Longrightarrow> flags h' = flags h"
proof (induction n arbitrary: h ev)
  case 0
  then show ?case by simp
next
  case (Suc n)
  obtain p h1 where np: "next_poll h = (p, h1)" by (cases "next_poll h")
  have f: "flags h1 = flags h"
    using next_poll_flags[of h] by (simp add: np)
  have rec: "\<And>ev0. wait_for_node parse n h1 ev0 = (r, h', ev') \<Longrightarrow> flags h' = flags h"
    using Suc.IH f by simp
  from Suc.prems rec f show ?case
    by (auto simp: np split: poll.splits option.splits if_splits)
qed

lemma wait_for_node_events:
  "wait_for_node parse n h ev = (r, h', ev') \<Longrightarrow> \<exists>k\<le>n. ev' = ev @ replicate k (SelectTimeout 0.5)"
proof (induction n arbitrary: h ev)
  case 0
  then show ?case by simp
next
  case (Suc n)
  obtain p h1 where np: "next_poll h = (p, h1)" by (cases "next_poll h")
  have same: "wait_for_node parse n h1 ev = (r, h', ev') \<Longrightarrow> ?case"
  proof -
    assume "wait_for_node parse n h1 ev = (r, h', ev')"
    from Suc.IH[OF this] obtain k where "k \<le> n" "ev' = ev @ replicate k (SelectTimeout 0.5)" by blast
    then show ?case by (intro exI[of _ k]) simp
  qed
  have timed: "wait_for_node parse n h1 (ev @ [SelectTimeout 0.5]) = (r, h', ev') \<Longrightarrow> ?case"
  proof -
    assume "wait_for_node parse n h1 (ev @ [SelectTimeout 0.5]) = (r, h', ev')"
    from Suc.IH[OF this] obtain k where k: "k \<le> n" "ev' = (ev @ [SelectTimeout 0.5]) @ replicate k (SelectTimeout 0.5)"
      by blast
    then have "ev' = ev @ replicate (Suc k) (SelectTimeout 0.5)" by simp
    with k(1) show ?case by (intro exI[of _ "Suc k"]) simp
  qed
  have stop: "ev' = ev \<Longrightarrow> ?case" by (intro exI[of _ 0]) simp
  from Suc.prems same timed stop show ?case
    by (auto simp: np split: poll.splits option.splits if_splits)
qed

lemma wait_for_node_silent:
  "stdout h = [] \<Longrightarrow> \<not> exited h \<Longrightarrow>
   wait_for_node parse n h ev = (NoNode, h, ev @ replicate n (SelectTimeout 0.5))"
proof (induction n arbitrary: ev)
  case 0
  then show ?case by simp
next
  case (Suc n)
  from Suc.IH[OF Suc.prems, of "ev @ [SelectTimeout 0.5]"] Suc.prems show ?case
    by (simp add: next_poll_silent replicate_append_same)
qed

lemma flags_exited: "flags h' = flags h \<Longrightarrow> exited h' = exited h"
  by (simp add: flags_def)

lemma flags_all:
  "flags h' = flags h \<Longrightarrow>
   exited h' = exited h \<and> stdin_open h' = stdin_open h \<and> exits_in_time h' = exits_in_time h
   \<and> dies_on_terminate h' = dies_on_terminate h"
  by (simp add: flags_def)

text \<open>
  A start of the input helper that does not see "ready", with the helper process still
  running: the nested \<^verbatim>\<open>stop\<close> finds \<^verbatim>\<open>_send\<close> answering "not available" (its \<^verbatim>\<open>start\<close>
  returns at once, the process being alive), waits, and terminates the process.
\<close>

lemma start_not_ready:
  assumes nr: "\<not> already_running w" and sp: "spawns w = Spawns h # sp" and rd: "\<not> ready (wl w)"
    and wt: "wait_for_ready 20 h (events w @ [Popen]) = (r, h', ev)"
    and nb: "r \<noteq> BecameReady" and al: "\<not> exited h"
  shows "\<exists>w'. start (Suc (Suc (Suc (Suc n)))) w = Some (Return (), w')
           \<and> wl w' = \<lparr>process = None, ready = False\<rparr> \<and> spawns w' = sp
           \<and> events w' = ev @ (if exits_in_time h then []
                                else Terminate # (if dies_on_terminate h then [] else [Kill]))"
proof -
  define w1 where "w1 = w\<lparr>wl := (wl w)\<lparr>process := Some h'\<rparr>, spawns := sp, events := ev\<rparr>"
  from wait_for_ready_flags[OF wt] have fl: "exited h' = exited h" "exits_in_time h' = exits_in_time h"
    "dies_on_terminate h' = dies_on_terminate h"
    using flags_all by blast+
  have p1: "process (wl w1) = Some h'" and r1: "\<not> ready (wl w1)"
    using rd by (simp_all add: w1_def)
  have inner: "start (Suc n) (set_ready False w1) = Some (Return (), set_ready False w1)"
    using al fl by (simp add: already_running_def set_ready_def w1_def)
  have snd: "send (Suc (Suc n)) stop_command w1 = Some (Return not_available, set_ready False w1)"
    using r1 inner by (simp add: dead_def set_ready_def)
  have st: "stop (Suc (Suc (Suc n))) w1 =
      Some (Return (), released ((set_ready False w1)\<lparr>events := ev @
              (if exits_in_time h then [] else Terminate # (if dies_on_terminate h then [] else [Kill]))\<rparr>))"
    using p1 snd al fl
    by (simp add: force_stop_def set_ready_def released_def w1_def)
  have "start (Suc (Suc (Suc (Suc n)))) w =
      Some (Return (), released ((set_ready False w1)\<lparr>events := ev @
              (if exits_in_time h then [] else Terminate # (if dies_on_terminate h then [] else [Kill]))\<rparr>))"
  proof (cases r)
    case BecameReady
    with nb show ?thesis by simp
  next
    case GaveUp
    with nr sp wt r1 st show ?thesis
      by (simp add: w1_def Let_def del: stop.simps send.simps)
  next
    case (LoopRaised e)
    with nr sp wt st show ?thesis
      by (simp add: w1_def Let_def del: stop.simps send.simps)
  qed
  then show ?thesis
    by (simp add: released_def set_ready_def w1_def)
qed

lemma start_becomes_ready:
  assumes nr: "\<not> already_running w" and sp: "spawns w = Spawns h # sp"
    and wt: "wait_for_ready 20 h (events w @ [Popen]) = (BecameReady, h', ev)"
  shows "start (Suc n) w =
           Some (Return (), w\<lparr>wl := \<lparr>process = Some h', ready = True\<rparr>, spawns := sp, events := ev\<rparr>)"
  using nr sp wt by (simp add: set_ready_def Let_def)

lemma start_pipewire_not_ready:
  assumes np: "pw_session_proc s = None" and nn: "pw_node_id s = None"
    and wt: "wait_for_node parse 10 h (pw_events s @ [Popen]) = (r, h', ev)"
    and ng: "\<forall>i. r \<noteq> GotNode i"
  shows "start_pipewire_session parse (Spawns h) s =
           (Return (),
            s\<lparr>pw_session_proc := None, pw_node_id := None,
              pw_events := ev @
                (if stdin_open h then [Wrote ''stop''] else []) @
                (if stdin_open h \<and> (exited h \<or> exits_in_time h) then []
                 else Terminate # (if exited h \<or> dies_on_terminate h then [] else [Kill]))\<rparr>)"
proof -
  from wait_for_node_flags[OF wt] have fl: "exited h' = exited h" "stdin_open h' = stdin_open h"
    "exits_in_time h' = exits_in_time h" "dies_on_terminate h' = dies_on_terminate h"
    using flags_all by blast+
  show ?thesis
    using np nn wt ng fl
    by (cases r) (simp_all add: start_pipewire_session_def stop_pipewire_session_def Let_def)
qed

text \<open>
  C7, as the code has it. The input helper's start polls its output at most 20 times with a
  select timeout of 0.5 seconds (at most 10 seconds in timed-out selects); the capture
  helper's start polls at most 10 times with the same timeout (at most 5 seconds). A helper
  that never writes exhausts exactly that budget. When the first significant line is the
  ready status (input) or a node line (capture) the helper is kept. When it is not, the
  capture session is stopped: the process is asked to stop or terminated, and the session
  has no process and no node. The same holds for the input backend when the helper process
  is still running: it is waited for or terminated, and the backend has no process and is
  not ready. Both starts return.
\<close>

theorem start_protocol_budgets:
  "(\<not> already_running w \<and> spawns w = Spawns h # sp \<and> \<not> ready (wl w) \<and> \<not> exited h \<longrightarrow>
      (\<exists>w'. start (Suc (Suc (Suc (Suc n)))) w = Some (Return (), w')
         \<and> select_time (events w') \<le> select_time (events w) + 10
         \<and> popens (events w') = popens (events w) + 1
         \<and> (fst (wait_for_ready 20 h (events w @ [Popen])) = BecameReady \<longrightarrow> ready (wl w'))
         \<and> (fst (wait_for_ready 20 h (events w @ [Popen])) \<noteq> BecameReady \<longrightarrow>
               wl w' = \<lparr>process = None, ready = False\<rparr>
               \<and> (exits_in_time h \<or> Terminate \<in> set (events w')))
         \<and> (stdout h = [] \<longrightarrow>
               select_time (events w') = select_time (events w) + 10
               \<and> wl w' = \<lparr>process = None, ready = False\<rparr>)))
   \<and> (pw_session_proc s = None \<and> pw_node_id s = None \<longrightarrow>
        fst (start_pipewire_session parse (Spawns g) s) = Return ()
        \<and> select_time (pw_events (snd (start_pipewire_session parse (Spawns g) s))) \<le> select_time (pw_events s) + 5
        \<and> ((\<forall>i. fst (wait_for_node parse 10 g (pw_events s @ [Popen])) \<noteq> GotNode i) \<longrightarrow>
              pw_session_proc (snd (start_pipewire_session parse (Spawns g) s)) = None
              \<and> pw_node_id (snd (start_pipewire_session parse (Spawns g) s)) = None
              \<and> (Terminate \<in> set (pw_events (snd (start_pipewire_session parse (Spawns g) s)))
                  \<or> Wrote ''stop'' \<in> set (pw_events (snd (start_pipewire_session parse (Spawns g) s)))))
        \<and> (stdout g = [] \<and> \<not> exited g \<longrightarrow>
              select_time (pw_events (snd (start_pipewire_session parse (Spawns g) s))) = select_time (pw_events s) + 5
              \<and> pw_session_proc (snd (start_pipewire_session parse (Spawns g) s)) = None))"
proof -
  have input: "\<not> already_running w \<and> spawns w = Spawns h # sp \<and> \<not> ready (wl w) \<and> \<not> exited h \<longrightarrow>
      (\<exists>w'. start (Suc (Suc (Suc (Suc n)))) w = Some (Return (), w')
         \<and> select_time (events w') \<le> select_time (events w) + 10
         \<and> popens (events w') = popens (events w) + 1
         \<and> (fst (wait_for_ready 20 h (events w @ [Popen])) = BecameReady \<longrightarrow> ready (wl w'))
         \<and> (fst (wait_for_ready 20 h (events w @ [Popen])) \<noteq> BecameReady \<longrightarrow>
               wl w' = \<lparr>process = None, ready = False\<rparr>
               \<and> (exits_in_time h \<or> Terminate \<in> set (events w')))
         \<and> (stdout h = [] \<longrightarrow>
               select_time (events w') = select_time (events w) + 10
               \<and> wl w' = \<lparr>process = None, ready = False\<rparr>))"
  proof (intro impI, elim conjE)
    assume nr: "\<not> already_running w" and sp: "spawns w = Spawns h # sp" and rd: "\<not> ready (wl w)"
      and al: "\<not> exited h"
    obtain r h' ev where wt: "wait_for_ready 20 h (events w @ [Popen]) = (r, h', ev)"
      by (cases "wait_for_ready 20 h (events w @ [Popen])")
    from wait_for_ready_events[OF wt] obtain k where k: "k \<le> 20"
      and ev: "ev = (events w @ [Popen]) @ replicate k (SelectTimeout 0.5)" by blast
    have tm: "select_time ev = select_time (events w) + real k * 0.5" and po: "popens ev = popens (events w) + 1"
      by (simp_all add: ev)
    from k have le: "select_time ev \<le> select_time (events w) + 10" by (simp add: tm)
    have silent: "stdout h = [] \<Longrightarrow> r = GaveUp \<and> select_time ev = select_time (events w) + 10"
    proof -
      assume "stdout h = []"
      from wait_for_ready_silent[OF this al, of 20 "events w @ [Popen]"] wt
      show "r = GaveUp \<and> select_time ev = select_time (events w) + 10" by auto
    qed
    show "\<exists>w'. start (Suc (Suc (Suc (Suc n)))) w = Some (Return (), w')
         \<and> select_time (events w') \<le> select_time (events w) + 10
         \<and> popens (events w') = popens (events w) + 1
         \<and> (fst (wait_for_ready 20 h (events w @ [Popen])) = BecameReady \<longrightarrow> ready (wl w'))
         \<and> (fst (wait_for_ready 20 h (events w @ [Popen])) \<noteq> BecameReady \<longrightarrow>
               wl w' = \<lparr>process = None, ready = False\<rparr>
               \<and> (exits_in_time h \<or> Terminate \<in> set (events w')))
         \<and> (stdout h = [] \<longrightarrow>
               select_time (events w') = select_time (events w) + 10
               \<and> wl w' = \<lparr>process = None, ready = False\<rparr>)"
    proof (cases "r = BecameReady")
      case True
      with wt have wt': "wait_for_ready 20 h (events w @ [Popen]) = (BecameReady, h', ev)" by simp
      from silent True have ns: "stdout h \<noteq> []" by auto
      show ?thesis
        unfolding start_becomes_ready[OF nr sp wt', of "Suc (Suc (Suc n))"]
        using le po ns by (simp add: wt')
    next
      case False
      from start_not_ready[OF nr sp rd wt False al, of n] obtain w' where
        st: "start (Suc (Suc (Suc (Suc n)))) w = Some (Return (), w')"
        and b: "wl w' = \<lparr>process = None, ready = False\<rparr>"
        and e: "events w' = ev @ (if exits_in_time h then []
                                else Terminate # (if dies_on_terminate h then [] else [Kill]))"
        by blast
      have t': "select_time (events w') = select_time ev" and p': "popens (events w') = popens ev"
        by (simp_all add: e)
      have tr: "exits_in_time h \<or> Terminate \<in> set (events w')" by (simp add: e)
      show ?thesis
        using st b le po t' p' tr silent False by (auto simp: wt)
    qed
  qed
  have capture: "pw_session_proc s = None \<and> pw_node_id s = None \<longrightarrow>
        fst (start_pipewire_session parse (Spawns g) s) = Return ()
        \<and> select_time (pw_events (snd (start_pipewire_session parse (Spawns g) s))) \<le> select_time (pw_events s) + 5
        \<and> ((\<forall>i. fst (wait_for_node parse 10 g (pw_events s @ [Popen])) \<noteq> GotNode i) \<longrightarrow>
              pw_session_proc (snd (start_pipewire_session parse (Spawns g) s)) = None
              \<and> pw_node_id (snd (start_pipewire_session parse (Spawns g) s)) = None
              \<and> (Terminate \<in> set (pw_events (snd (start_pipewire_session parse (Spawns g) s)))
                  \<or> Wrote ''stop'' \<in> set (pw_events (snd (start_pipewire_session parse (Spawns g) s)))))
        \<and> (stdout g = [] \<and> \<not> exited g \<longrightarrow>
              select_time (pw_events (snd (start_pipewire_session parse (Spawns g) s))) = select_time (pw_events s) + 5
              \<and> pw_session_proc (snd (start_pipewire_session parse (Spawns g) s)) = None)"
  proof (intro impI, elim conjE)
    assume np: "pw_session_proc s = None" and nn: "pw_node_id s = None"
    obtain r g' ev where wt: "wait_for_node parse 10 g (pw_events s @ [Popen]) = (r, g', ev)"
      by (cases "wait_for_node parse 10 g (pw_events s @ [Popen])")
    from wait_for_node_events[OF wt] obtain k where k: "k \<le> 10"
      and ev: "ev = (pw_events s @ [Popen]) @ replicate k (SelectTimeout 0.5)" by blast
    have tm: "select_time ev = select_time (pw_events s) + real k * 0.5"
      by (simp add: ev)
    from k have le: "select_time ev \<le> select_time (pw_events s) + 5" by (simp add: tm)
    have silent: "stdout g = [] \<and> \<not> exited g \<Longrightarrow> r = NoNode \<and> select_time ev = select_time (pw_events s) + 5"
    proof -
      assume a: "stdout g = [] \<and> \<not> exited g"
      then have "stdout g = []" "\<not> exited g" by simp_all
      from wait_for_node_silent[OF this, of parse 10 "pw_events s @ [Popen]"] wt
      show "r = NoNode \<and> select_time ev = select_time (pw_events s) + 5" by auto
    qed
    show "fst (start_pipewire_session parse (Spawns g) s) = Return ()
        \<and> select_time (pw_events (snd (start_pipewire_session parse (Spawns g) s))) \<le> select_time (pw_events s) + 5
        \<and> ((\<forall>i. fst (wait_for_node parse 10 g (pw_events s @ [Popen])) \<noteq> GotNode i) \<longrightarrow>
              pw_session_proc (snd (start_pipewire_session parse (Spawns g) s)) = None
              \<and> pw_node_id (snd (start_pipewire_session parse (Spawns g) s)) = None
              \<and> (Terminate \<in> set (pw_events (snd (start_pipewire_session parse (Spawns g) s)))
                  \<or> Wrote ''stop'' \<in> set (pw_events (snd (start_pipewire_session parse (Spawns g) s)))))
        \<and> (stdout g = [] \<and> \<not> exited g \<longrightarrow>
              select_time (pw_events (snd (start_pipewire_session parse (Spawns g) s))) = select_time (pw_events s) + 5
              \<and> pw_session_proc (snd (start_pipewire_session parse (Spawns g) s)) = None)"
    proof (cases "\<exists>i. r = GotNode i")
      case True
      then obtain i where i: "r = GotNode i" by blast
      from silent i have ns: "\<not> (stdout g = [] \<and> \<not> exited g)" by auto
      have "start_pipewire_session parse (Spawns g) s =
              (Return (), s\<lparr>pw_session_proc := Some g', pw_events := ev, pw_node_id := Some i\<rparr>)"
        using np wt i by (simp add: start_pipewire_session_def Let_def)
      then show ?thesis using le ns i by (simp add: wt)
    next
      case False
      then have ng: "\<forall>i. r \<noteq> GotNode i" by blast
      show ?thesis
        unfolding start_pipewire_not_ready[OF np nn wt ng]
        using le silent by (auto simp: wt)
    qed
  qed
  from input capture show ?thesis by blast
qed

theorem start_protocol_budgets_witness:
  "\<not> already_running (fresh_world [Spawns silent_helper]) \<and> \<not> ready (wl (fresh_world [Spawns silent_helper]))
   \<and> \<not> exited (silent_helper :: json_line helper)
   \<and> map_option (\<lambda>r. (fst r, wl (snd r), select_time (events (snd r)))) (start 4 (fresh_world [Spawns silent_helper]))
       = Some (Return (), \<lparr>process = None, ready = False\<rparr>, 10)
   \<and> map_option (\<lambda>r. (fst r, ready (wl (snd r)), select_time (events (snd r)))) (start 4 (fresh_world [Spawns ready_helper]))
       = Some (Return (), True, 0.5)
   \<and> (\<exists>w'. start (Suc (Suc (Suc (Suc 0)))) (fresh_world [Spawns silent_helper]) = Some (Return (), w')
          \<and> wl w' = \<lparr>process = None, ready = False\<rparr>)
   \<and> pw_session_proc fresh_pw = None \<and> pw_node_id fresh_pw = None
   \<and> pw_node_id (snd (start_pipewire_session parse_42 (Spawns node_helper) fresh_pw)) = Some 42
   \<and> select_time (pw_events (snd (start_pipewire_session parse_42 (Spawns silent_helper) fresh_pw))) \<le> 5"
proof -
  have a: "\<not> already_running (fresh_world [Spawns silent_helper])" by code_simp
  have b: "\<not> ready (wl (fresh_world [Spawns silent_helper]))" by code_simp
  have c: "\<not> exited (silent_helper :: json_line helper)" by (simp add: silent_helper_def)
  have s: "spawns (fresh_world [Spawns silent_helper]) = Spawns silent_helper # []" by (simp add: fresh_world_def)
  have d: "map_option (\<lambda>r. (fst r, wl (snd r), select_time (events (snd r)))) (start 4 (fresh_world [Spawns silent_helper]))
       = Some (Return (), \<lparr>process = None, ready = False\<rparr>, 10)" by code_simp
  have e: "map_option (\<lambda>r. (fst r, ready (wl (snd r)), select_time (events (snd r)))) (start 4 (fresh_world [Spawns ready_helper]))
       = Some (Return (), True, 0.5)" by code_simp
  have f: "pw_session_proc fresh_pw = None" "pw_node_id fresh_pw = None" by (simp_all add: fresh_pw_def)
  have g: "pw_node_id (snd (start_pipewire_session parse_42 (Spawns node_helper) fresh_pw)) = Some 42"
    by code_simp
  have ev: "select_time (pw_events fresh_pw) = 0" by (simp add: fresh_pw_def)
  from start_protocol_budgets[where s = fresh_pw and parse = parse_42 and g = silent_helper
      and w = "fresh_world [Spawns silent_helper]" and h = silent_helper and sp = "[]" and n = 0]
    f ev
  have t: "select_time (pw_events (snd (start_pipewire_session parse_42 (Spawns silent_helper) fresh_pw))) \<le> 5"
    by simp
  have so: "stdout (silent_helper :: json_line helper) = []" by (simp add: silent_helper_def)
  from start_protocol_budgets[where s = fresh_pw and parse = parse_42 and g = silent_helper
      and w = "fresh_world [Spawns silent_helper]" and h = silent_helper and sp = "[]" and n = 0]
    a b c s so
  have i: "\<exists>w'. start (Suc (Suc (Suc (Suc 0)))) (fresh_world [Spawns silent_helper]) = Some (Return (), w')
          \<and> wl w' = \<lparr>process = None, ready = False\<rparr>"
    by blast
  from a b c d e f g t i show ?thesis by blast
qed

text \<open>
  C7 as stated fails for the capture-session helper: with a helper that never writes, the
  start gives up after 5 seconds of polling, not 10, and drops the process.
\<close>

theorem start_protocol_budgets_counterexample:
  "select_time (pw_events (snd (start_pipewire_session parse_42 (Spawns silent_helper) fresh_pw))) = 5
   \<and> pw_session_proc (snd (start_pipewire_session parse_42 (Spawns silent_helper) fresh_pw)) = None
   \<and> map_option (\<lambda>r. select_time (events (snd r))) (start 4 (fresh_world [Spawns silent_helper])) = Some 10"
  by code_simp

section \<open>Properties of the input command router\<close>

lemma ensure_started_idle:
  "\<not> wayland h \<or> ready (wl (bridge h)) \<Longrightarrow> ensure_started env h = Some (Return (), h)"
  by (auto simp: ensure_started_def)

text \<open>
  C8, as the code has it. With the backend already started (or the X11 backend), a
  \<^verbatim>\<open>set_sensitivity\<close> command with a numeric value sets the sensitivity to that value
  clamped to [0.1, 5.0], leaves the rest of the handler, the bridge and its record of calls
  included, untouched, and returns the success envelope. \<^verbatim>\<open>set_quality\<close>, \<^verbatim>\<open>set_fps\<close> and
  \<^verbatim>\<open>set_monitor\<close> are not commands of \<^verbatim>\<open>process_command\<close>: it changes nothing and returns the
  error envelope for an unknown command. They are control messages of the streaming channel,
  which writes the capture session's quality, fps or monitor (and the adaptive counterpart)
  without any call.
\<close>

theorem configuration_commands:
  "((\<not> wayland h \<or> ready (wl (bridge h)))
      \<and> get_or command ''type'' (JStr []) = JStr ''set_sensitivity''
      \<and> as_number (get_or command ''value'' (JNum 1)) = Some v \<longrightarrow>
        process_command env command h = Some (Return ok_envelope, h\<lparr>sensitivity := max 0.1 (min 5.0 v)\<rparr>))
   \<and> ((\<not> wayland h \<or> ready (wl (bridge h)))
      \<and> name \<in> {''set_quality'', ''set_fps'', ''set_monitor''}
      \<and> get_or command ''type'' (JStr []) = JStr name \<longrightarrow>
        process_command env command h = Some (Return (error_envelope (''Unknown command: '' @ name)), h))
   \<and> apply_control (SetQuality (Some q)) s = s\<lparr>quality := q, adaptive_quality := q\<rparr>
   \<and> apply_control (SetFps (Some f)) s = s\<lparr>fps := f, adaptive_fps := f\<rparr>
   \<and> apply_control (SetMonitor (Some m)) s = s\<lparr>monitor := m\<rparr>"
proof -
  have sens: "(\<not> wayland h \<or> ready (wl (bridge h)))
      \<and> get_or command ''type'' (JStr []) = JStr ''set_sensitivity''
      \<and> as_number (get_or command ''value'' (JNum 1)) = Some v \<longrightarrow>
        process_command env command h = Some (Return ok_envelope, h\<lparr>sensitivity := max 0.1 (min 5.0 v)\<rparr>)"
  proof (intro impI, elim conjE)
    assume i: "\<not> wayland h \<or> ready (wl (bridge h))"
      and t: "get_or command ''type'' (JStr []) = JStr ''set_sensitivity''"
      and v: "as_number (get_or command ''value'' (JNum 1)) = Some v"
    have "dispatch env (JStr ''set_sensitivity'') command h =
            Some (Return ok_envelope, h\<lparr>sensitivity := max 0.1 (min 5.0 v)\<rparr>)"
      using v by (simp add: dispatch_def)
    then show "process_command env command h = Some (Return ok_envelope, h\<lparr>sensitivity := max 0.1 (min 5.0 v)\<rparr>)"
      by (simp add: process_command_def t ensure_started_idle[OF i])
  qed
  have unknown: "(\<not> wayland h \<or> ready (wl (bridge h)))
      \<and> name \<in> {''set_quality'', ''set_fps'', ''set_monitor''}
      \<and> get_or command ''type'' (JStr []) = JStr name \<longrightarrow>
        process_command env command h = Some (Return (error_envelope (''Unknown command: '' @ name)), h)"
  proof (intro impI, elim conjE)
    assume i: "\<not> wayland h \<or> ready (wl (bridge h))"
      and n: "name \<in> {''set_quality'', ''set_fps'', ''set_monitor''}"
      and t: "get_or command ''type'' (JStr []) = JStr name"
    from n consider "name = ''set_quality''" | "name = ''set_fps''" | "name = ''set_monitor''"
      by blast
    then have "dispatch env (JStr name) command h =
            Some (Return (error_envelope (''Unknown command: '' @ name)), h)"
      by cases (simp_all add: dispatch_def render_def)
    then show "process_command env command h = Some (Return (error_envelope (''Unknown command: '' @ name)), h)"
      by (simp add: process_command_def t ensure_started_idle[OF i])
  qed
  have ctl: "apply_control (SetQuality (Some q)) s = s\<lparr>quality := q, adaptive_quality := q\<rparr>
   \<and> apply_control (SetFps (Some f)) s = s\<lparr>fps := f, adaptive_fps := f\<rparr>
   \<and> apply_control (SetMonitor (Some m)) s = s\<lparr>monitor := m\<rparr>"
    by simp
  from sens unknown ctl show ?thesis by blast
qed

theorem configuration_commands_witness:
  "\<not> wayland x11_handler
   \<and> as_number (get_or [(''type'', JStr ''set_sensitivity''), (''value'', JNum 80)] ''value'' (JNum 1)) = Some 80
   \<and> process_command test_environment [(''type'', JStr ''set_sensitivity''), (''value'', JNum 80)] x11_handler
       = Some (Return ok_envelope, x11_handler\<lparr>sensitivity := 5\<rparr>)
   \<and> process_command test_environment [(''type'', JStr ''set_fps''), (''fps'', JNum 30)] x11_handler
       = Some (Return (error_envelope ''Unknown command: set_fps''), x11_handler)"
proof -
  have a: "\<not> wayland x11_handler" by (simp add: x11_handler_def)
  have t: "get_or [(''type'', JStr ''set_sensitivity''), (''value'', JNum 80)] ''type'' (JStr []) = JStr ''set_sensitivity''"
    by (simp add: get_or_def)
  have v: "as_number (get_or [(''type'', JStr ''set_sensitivity''), (''value'', JNum 80)] ''value'' (JNum 1)) = Some 80"
    by (simp add: get_or_def)
  have t2: "get_or [(''type'', JStr ''set_fps''), (''fps'', JNum 30)] ''type'' (JStr []) = JStr ''set_fps''"
    by (simp add: get_or_def)
  from configuration_commands[where h = x11_handler and v = 80 and env = test_environment
      and command = "[(''type'', JStr ''set_sensitivity''), (''value'', JNum 80)]"] a t v
  have s: "process_command test_environment [(''type'', JStr ''set_sensitivity''), (''value'', JNum 80)] x11_handler
       = Some (Return ok_envelope, x11_handler\<lparr>sensitivity := 5\<rparr>)"
    by simp
  from configuration_commands[where h = x11_handler and name = "''set_fps''" and env = test_environment
      and command = "[(''type'', JStr ''set_fps''), (''fps'', JNum 30)]"] a t2
  have u: "process_command test_environment [(''type'', JStr ''set_fps''), (''fps'', JNum 30)] x11_handler
       = Some (Return (error_envelope ''Unknown command: set_fps''), x11_handler)"
    by simp
  from a v s u show ?thesis by blast
qed

text \<open>
  C8 as stated fails: \<^verbatim>\<open>process_command\<close> answers a \<^verbatim>\<open>set_quality\<close> command with the error
  envelope for an unknown command and changes nothing.
\<close>

theorem configuration_commands_counterexample:
  "process_command test_environment [(''type'', JStr ''set_quality''), (''quality'', JNum 80)] x11_handler
     = Some (Return [(''status'', JStr ''error''), (''message'', JStr ''Unknown command: set_quality'')], x11_handler)"
  by code_simp

text \<open>
  C6 at a failing input: the backend is dead (no process, not ready) and the \<^verbatim>\<open>Popen\<close> of the
  restart raises \<^verbatim>\<open>FileNotFoundError\<close>. \<^verbatim>\<open>_send\<close> does not return the "not available" result:
  the exception leaves it.
\<close>

theorem send_restart_spawn_failure:
  "process (wl (fresh_world [SpawnFails FileNotFoundError])) = None
   \<and> \<not> ready (wl (fresh_world [SpawnFails FileNotFoundError]))
   \<and> send 4 [(''type'', JStr ''mouse_move'')] (fresh_world [SpawnFails FileNotFoundError])
       = Some (Raise FileNotFoundError, fresh_world [])"
  by code_simp

text \<open>
  C9 at a failing input: on the Wayland backend with the helper not started,
  \<^verbatim>\<open>ensure_started\<close> runs before the \<^verbatim>\<open>try\<close>, and a \<^verbatim>\<open>Popen\<close> that raises
  \<^verbatim>\<open>FileNotFoundError\<close> leaves \<^verbatim>\<open>process_command\<close> as that exception instead of a result.
\<close>

theorem process_command_spawn_failure:
  "process_command test_environment [(''type'', JStr ''mouse_move'')] (wayland_handler [SpawnFails FileNotFoundError])
     = Some (Raise FileNotFoundError, wayland_handler [])"
  by code_simp

section \<open>What the bridge and the router do guarantee\<close>

lemma then_ok_x11:
  "\<not> wayland h \<Longrightarrow>
   then_ok after (backend_call env cmds h) =
     Some (case x11_raises env of None \<Rightarrow> (Return ok_envelope, after h) | Some e \<Rightarrow> (Raise e, h))"
  by (simp add: then_ok_def backend_call_def split: option.split)

lemma then_ok_Return:
  "then_ok after r = Some (Return d, h') \<Longrightarrow> d = ok_envelope"
  by (auto simp: then_ok_def split: option.splits prod.splits result.splits)

lemma dispatch_x11:
  "\<not> wayland h \<Longrightarrow> \<exists>r h'. dispatch env t command h = Some (r, h')"
  by (auto simp: dispatch_def then_ok_x11 Let_def split: option.split prod.split)

lemma dispatch_Return:
  "dispatch env t command h = Some (Return d, h') \<Longrightarrow> is_result env command d"
  by (auto simp: dispatch_def Let_def is_result_def dest: then_ok_Return
           split: if_splits option.splits prod.splits)

text \<open>
  The router, apart from the start of the backend. Whatever \<^verbatim>\<open>process_command\<close> returns is
  the success envelope, the clipboard result or an error envelope. Once \<^verbatim>\<open>ensure_started\<close>
  has returned, no exception leaves \<^verbatim>\<open>process_command\<close>. On the X11 backend every call
  returns a result.
\<close>

theorem process_command_contains:
  "(process_command env command h = Some (Return d, hb) \<longrightarrow> is_result env command d)
   \<and> (ensure_started env h = Some (Return (), ha) \<longrightarrow> process_command env command h \<noteq> Some (Raise e, hb))
   \<and> (\<not> wayland h \<longrightarrow> (\<exists>d' h'. process_command env command h = Some (Return d', h')))"
proof -
  have shape: "process_command env command h = Some (Return d, hb) \<longrightarrow> is_result env command d"
  proof
    assume p: "process_command env command h = Some (Return d, hb)"
    then obtain u h0 where es: "ensure_started env h = Some (Return u, h0)"
      by (auto simp: process_command_def split: option.splits prod.splits result.splits)
    from p es obtain r where di: "dispatch env (get_or command ''type'' (JStr [])) command h0 = Some (r, hb)"
      by (auto simp: process_command_def split: option.splits prod.splits result.splits)
    show "is_result env command d"
    proof (cases r)
      case (Return d0)
      with p es di have "d = d0" by (simp add: process_command_def)
      with Return di show ?thesis using dispatch_Return by blast
    next
      case (Raise e0)
      with p es di have "d = error_envelope (str_of e0)" by (simp add: process_command_def)
      then show ?thesis by (auto simp: is_result_def)
    qed
  qed
  have caught: "ensure_started env h = Some (Return (), ha) \<longrightarrow> process_command env command h \<noteq> Some (Raise e, hb)"
    by (simp add: process_command_def split: option.split prod.split result.split)
  have x11: "\<not> wayland h \<longrightarrow> (\<exists>d' h'. process_command env command h = Some (Return d', h'))"
  proof
    assume x: "\<not> wayland h"
    then have es: "ensure_started env h = Some (Return (), h)" by (simp add: ensure_started_idle)
    from dispatch_x11[OF x] obtain r h' where
      di: "dispatch env (get_or command ''type'' (JStr [])) command h = Some (r, h')" by blast
    show "\<exists>d' h'. process_command env command h = Some (Return d', h')"
      using es di by (cases r) (simp_all add: process_command_def)
  qed
  from shape caught x11 show ?thesis by blast
qed

theorem process_command_contains_witness:
  "\<not> wayland x11_handler
   \<and> ensure_started (test_environment\<lparr>x11_raises := Some RuntimeError\<rparr>) x11_handler = Some (Return (), x11_handler)
   \<and> process_command (test_environment\<lparr>x11_raises := Some RuntimeError\<rparr>) [(''type'', JStr ''key_press''), (''key'', JStr ''a'')] x11_handler
        = Some (Return (error_envelope ''RuntimeError''), x11_handler)
   \<and> is_result (test_environment\<lparr>x11_raises := Some RuntimeError\<rparr>) [(''type'', JStr ''key_press''), (''key'', JStr ''a'')]
        (error_envelope ''RuntimeError'')"
proof -
  have a: "\<not> wayland x11_handler" by (simp add: x11_handler_def)
  have b: "ensure_started (test_environment\<lparr>x11_raises := Some RuntimeError\<rparr>) x11_handler = Some (Return (), x11_handler)"
    by (simp add: ensure_started_def x11_handler_def)
  have c: "process_command (test_environment\<lparr>x11_raises := Some RuntimeError\<rparr>) [(''type'', JStr ''key_press''), (''key'', JStr ''a'')] x11_handler
        = Some (Return (error_envelope ''RuntimeError''), x11_handler)"
    by code_simp
  from process_command_contains[where env = "test_environment\<lparr>x11_raises := Some RuntimeError\<rparr>"
      and command = "[(''type'', JStr ''key_press''), (''key'', JStr ''a'')]" and h = x11_handler
      and d = "error_envelope ''RuntimeError''" and hb = x11_handler] c
  have "is_result (test_environment\<lparr>x11_raises := Some RuntimeError\<rparr>) [(''type'', JStr ''key_press''), (''key'', JStr ''a'')]
        (error_envelope ''RuntimeError'')"
    by blast
  with a b c show ?thesis by blast
qed

text \<open>
  The bridge, apart from a \<^verbatim>\<open>Popen\<close> that raises. A call on a backend that is not ready
  re-runs the start; when the new helper does not become ready and is still running, the call
  returns the "not available" error and leaves the backend without process. A call on a
  ready, running helper that sends no reply line within the select timeout (or only a blank
  one, or the end of the stream) returns the success envelope.
\<close>

theorem send_on_dead_and_silent:
  "(\<not> already_running w \<and> \<not> ready (wl w) \<and> spawns w = Spawns h # sp \<and> \<not> exited h
      \<and> fst (wait_for_ready 20 h (events w @ [Popen])) \<noteq> BecameReady \<longrightarrow>
        (\<exists>w'. send (Suc (Suc (Suc (Suc (Suc n))))) cmd w = Some (Return not_available, w')
           \<and> wl w' = \<lparr>process = None, ready = False\<rparr>
           \<and> popens (events w') = popens (events w) + 1))
   \<and> (ready (wl w) \<and> process (wl w) = Some g \<and> \<not> exited g \<and> stdin_open g
      \<and> fst (next_poll g) \<in> {TimedOut, EndOfFile, Readable Blank} \<longrightarrow>
        fst (transmit cmd w) = Return ok_envelope
        \<and> send (Suc n) cmd w = Some (transmit cmd w))"
proof -
  have dead_case: "\<not> already_running w \<and> \<not> ready (wl w) \<and> spawns w = Spawns h # sp \<and> \<not> exited h
      \<and> fst (wait_for_ready 20 h (events w @ [Popen])) \<noteq> BecameReady \<longrightarrow>
        (\<exists>w'. send (Suc (Suc (Suc (Suc (Suc n))))) cmd w = Some (Return not_available, w')
           \<and> wl w' = \<lparr>process = None, ready = False\<rparr>
           \<and> popens (events w') = popens (events w) + 1)"
  proof (intro impI, elim conjE)
    assume nr: "\<not> already_running w" and rd: "\<not> ready (wl w)" and sp: "spawns w = Spawns h # sp"
      and al: "\<not> exited h" and nb: "fst (wait_for_ready 20 h (events w @ [Popen])) \<noteq> BecameReady"
    from rd have same: "set_ready False w = w" by (simp add: set_ready_def)
    obtain r h' ev where wt: "wait_for_ready 20 h (events w @ [Popen]) = (r, h', ev)"
      by (cases "wait_for_ready 20 h (events w @ [Popen])")
    with nb have nb': "r \<noteq> BecameReady" by simp
    from wait_for_ready_events[OF wt] obtain k where
      ev: "ev = (events w @ [Popen]) @ replicate k (SelectTimeout 0.5)" by blast
    from start_not_ready[OF nr sp rd wt nb' al, of n] obtain w' where
      st: "start (Suc (Suc (Suc (Suc n)))) w = Some (Return (), w')"
      and b: "wl w' = \<lparr>process = None, ready = False\<rparr>"
      and e: "events w' = ev @ (if exits_in_time h then []
                                else Terminate # (if dies_on_terminate h then [] else [Kill]))"
      by blast
    have po: "popens (events w') = popens (events w) + 1" by (simp add: e ev)
    have "send (Suc (Suc (Suc (Suc (Suc n))))) cmd w = Some (Return not_available, w')"
      using rd st b by (simp add: dead_def same del: start.simps)
    with b po show "\<exists>w'. send (Suc (Suc (Suc (Suc (Suc n))))) cmd w = Some (Return not_available, w')
           \<and> wl w' = \<lparr>process = None, ready = False\<rparr>
           \<and> popens (events w') = popens (events w) + 1" by blast
  qed
  have live_case: "ready (wl w) \<and> process (wl w) = Some g \<and> \<not> exited g \<and> stdin_open g
      \<and> fst (next_poll g) \<in> {TimedOut, EndOfFile, Readable Blank} \<longrightarrow>
        fst (transmit cmd w) = Return ok_envelope
        \<and> send (Suc n) cmd w = Some (transmit cmd w)"
  proof (intro impI, elim conjE)
    assume rd: "ready (wl w)" and p: "process (wl w) = Some g" and al: "\<not> exited g"
      and so: "stdin_open g" and np: "fst (next_poll g) \<in> {TimedOut, EndOfFile, Readable Blank}"
    obtain q g' where n: "next_poll g = (q, g')" by (cases "next_poll g")
    with np have q: "q = TimedOut \<or> q = EndOfFile \<or> q = Readable Blank" by simp
    have t: "fst (transmit cmd w) = Return ok_envelope"
      using p so n q by (auto simp: transmit_def Let_def)
    have s: "send (Suc n) cmd w = Some (transmit cmd w)"
      using rd p al by (simp add: dead_def)
    from t s show "fst (transmit cmd w) = Return ok_envelope \<and> send (Suc n) cmd w = Some (transmit cmd w)"
      by blast
  qed
  from dead_case live_case show ?thesis by blast
qed

theorem send_on_dead_and_silent_witness:
  "\<not> already_running (fresh_world [Spawns silent_helper]) \<and> \<not> ready (wl (fresh_world [Spawns silent_helper]))
   \<and> map_option (\<lambda>r. (fst r, wl (snd r))) (send 5 [(''type'', JStr ''mouse_move'')] (fresh_world [Spawns silent_helper]))
       = Some (Return not_available, \<lparr>process = None, ready = False\<rparr>)
   \<and> ready (wl live_world) \<and> process (wl live_world) = Some silent_helper
   \<and> fst (next_poll (silent_helper :: json_line helper)) = TimedOut
   \<and> map_option fst (send 1 [(''type'', JStr ''mouse_move'')] live_world) = Some (Return ok_envelope)"
proof -
  have a: "\<not> already_running (fresh_world [Spawns silent_helper])" by code_simp
  have b: "\<not> ready (wl (fresh_world [Spawns silent_helper]))" by code_simp
  have c: "map_option (\<lambda>r. (fst r, wl (snd r))) (send 5 [(''type'', JStr ''mouse_move'')] (fresh_world [Spawns silent_helper]))
       = Some (Return not_available, \<lparr>process = None, ready = False\<rparr>)" by code_simp
  have d: "ready (wl live_world)" "process (wl live_world) = Some silent_helper"
    by (simp_all add: live_world_def)
  have e: "\<not> exited (silent_helper :: json_line helper)" "stdin_open (silent_helper :: json_line helper)"
    by (simp_all add: silent_helper_def)
  have f: "fst (next_poll (silent_helper :: json_line helper)) = TimedOut"
    by (simp add: next_poll_def silent_helper_def)
  from send_on_dead_and_silent[where w = live_world and g = silent_helper and n = 0
      and cmd = "[(''type'', JStr ''mouse_move'')]"] d e f
  have "fst (transmit [(''type'', JStr ''mouse_move'')] live_world) = Return ok_envelope
        \<and> send (Suc 0) [(''type'', JStr ''mouse_move'')] live_world = Some (transmit [(''type'', JStr ''mouse_move'')] live_world)"
    by simp
  then have g: "map_option fst (send 1 [(''type'', JStr ''mouse_move'')] live_world) = Some (Return ok_envelope)"
    by simp
  from a b c d f g show ?thesis by blast
qed

text \<open>
  The re-entrancy of the bridge: when the helper has exited without becoming ready, the
  \<^verbatim>\<open>stop\<close> inside \<^verbatim>\<open>start\<close> goes through \<^verbatim>\<open>_send\<close>, which finds the backend dead and
  starts another helper. With two helpers that report an error and exit, followed by one
  that stays silent, a single \<^verbatim>\<open>start\<close> spawns all three.
\<close>

theorem start_respawns_exited_helper:
  "map_option (\<lambda>r. (fst r, wl (snd r), popens (events (snd r)), select_time (events (snd r))))
     (start 10 (fresh_world [Spawns crashed_helper, Spawns crashed_helper, Spawns silent_helper]))
   = Some (Return (), \<lparr>process = None, ready = False\<rparr>, 3, 10)"
  by code_simp

end
